theory Spec2Isabelle
  imports Main "HOL-Library.Sublist" "HOL-Library.Multiset"
begin

text \<open>
  The module \<open>reactome2py.utils\<close>: ten functions, each of which sends one HTTP request
  to Reactome (\<open>sbgn_stids\<close> a second one, through \<open>ehld_stids\<close>), checks the status of
  the answer and returns the parsed content. The functions are modelled as functions of
  an environment, which holds the remote side and the libraries; a call yields the
  events it causes (requests sent, lines printed) and its result, an exception or a
  returned value.
\<close>

section \<open>Python strings\<close>

text \<open>
  A Python \<open>str\<close> is a sequence of Unicode code points, modelled as a list of naturals;
  \<open>bytes\<close> is a list of 8-bit characters. \<open>u\<close> writes a \<open>str\<close> literal from its
  ASCII text.
\<close>

type_synonym ustring = "nat list"
type_synonym bytes = "char list"

definition u :: "string \<Rightarrow> ustring" where
  "u s = map of_char s"

text \<open>\<^verbatim>\<open>pattern in s\<close> on strings: \<open>pattern\<close> occurs in \<open>s\<close> as a contiguous run.\<close>

fun contains :: "'a list \<Rightarrow> 'a list \<Rightarrow> bool" where
  "contains p [] = (p = [])"
| "contains p (c # cs) = (prefix p (c # cs) \<or> contains p cs)"

text \<open>
  \<^verbatim>\<open>s.replace(old, new)\<close>: every occurrence of \<open>old\<close> found scanning from the left,
  occurrences not overlapping, is replaced by \<open>new\<close>. An empty \<open>old\<close> matches before
  every character and at the end.
\<close>

function replace :: "'a list \<Rightarrow> 'a list \<Rightarrow> 'a list \<Rightarrow> 'a list" where
  "replace s old new =
     (if old = [] then new @ concat (map (\<lambda>c. c # new) s)
      else if s = [] then []
      else if prefix old s then new @ replace (drop (length old) s) old new
      else hd s # replace (tl s) old new)"
  by pat_completeness auto
termination
  by (relation "measure (\<lambda>(s, old, new). length s)") auto

declare replace.simps [simp del]

text \<open>\<^verbatim>\<open>s.split(sep)\<close> for a separator of one character: always at least one field.\<close>

fun split_char :: "'a \<Rightarrow> 'a list \<Rightarrow> 'a list \<Rightarrow> 'a list list" where
  "split_char sep cur [] = [cur]"
| "split_char sep cur (c # cs) =
     (if c = sep then cur # split_char sep [] cs else split_char sep (cur @ [c]) cs)"

definition split :: "ustring \<Rightarrow> nat \<Rightarrow> ustring list" where
  "split s sep = split_char sep [] s"

text \<open>
  \<^verbatim>\<open>s.strip()\<close> removes leading and trailing whitespace: the code points for which
  \<^verbatim>\<open>str.isspace\<close> holds.
\<close>

definition isspace :: "nat \<Rightarrow> bool" where
  "isspace c = ((0x09 \<le> c \<and> c \<le> 0x0D) \<or> (0x1C \<le> c \<and> c \<le> 0x20) \<or> c = 0x85 \<or> c = 0xA0
     \<or> c = 0x1680 \<or> (0x2000 \<le> c \<and> c \<le> 0x200A) \<or> c = 0x2028 \<or> c = 0x2029
     \<or> c = 0x202F \<or> c = 0x205F \<or> c = 0x3000)"

definition strip :: "ustring \<Rightarrow> ustring" where
  "strip s = rev (dropWhile isspace (rev (dropWhile isspace s)))"

text \<open>
  \<^verbatim>\<open>s.splitlines()\<close>: lines without their line ends; \<open>\r\n\<close> is one line end, and a
  final line end opens no further line.
\<close>

definition is_linebreak :: "nat \<Rightarrow> bool" where
  "is_linebreak c = ((0x0A \<le> c \<and> c \<le> 0x0D) \<or> (0x1C \<le> c \<and> c \<le> 0x1E) \<or> c = 0x85
     \<or> c = 0x2028 \<or> c = 0x2029)"

fun splitlines_from :: "ustring \<Rightarrow> ustring \<Rightarrow> ustring list" where
  "splitlines_from cur [] = (if cur = [] then [] else [cur])"
| "splitlines_from cur [c] = (if is_linebreak c then [cur] else [cur @ [c]])"
| "splitlines_from cur (c # d # cs) =
     (if c = 0x0D \<and> d = 0x0A then cur # splitlines_from [] cs
      else if is_linebreak c then cur # splitlines_from [] (d # cs)
      else splitlines_from (cur @ [c]) (d # cs))"

definition splitlines :: "ustring \<Rightarrow> ustring list" where
  "splitlines s = splitlines_from [] s"

text \<open>\<^verbatim>\<open>'%s' % n\<close> for an integer: its decimal digits, with a sign when negative.\<close>

fun digits :: "nat \<Rightarrow> ustring" where
  "digits n = (if n < 10 then [48 + n] else digits (n div 10) @ [48 + n mod 10])"

declare digits.simps [simp del]

definition str_int :: "int \<Rightarrow> ustring" where
  "str_int i = (if i < 0 then 45 # digits (nat (- i)) else digits (nat i))"

text \<open>
  \<^verbatim>\<open>list(set(xs) - set(ys))\<close>: the elements of \<open>xs\<close> that are not in \<open>ys\<close>, each once.
  Python leaves the iteration order of a set open; the model lists the elements in the
  order of their last occurrence in \<open>xs\<close>, and the theorems about the result are stated
  for every reordering of it.
\<close>

definition set_difference_list :: "'a list \<Rightarrow> 'a list \<Rightarrow> 'a list" where
  "set_difference_list xs ys = remdups (filter (\<lambda>x. x \<notin> set ys) xs)"

section \<open>The libraries and the remote side\<close>

datatype exn =
    UnboundLocalError
  | TypeError
  | IndexError
  | LibraryError ustring

datatype http_method = GET | POST

record request =
  http_method :: http_method
  url :: ustring
  headers :: "(ustring \<times> ustring) list"
  data :: "ustring option"

text \<open>
  What the functions read of a response: \<open>status_code\<close>, \<open>text\<close> (the field
  \<open>response_text\<close> here), \<open>content\<close> and \<open>json()\<close>, which raises when the body is not
  JSON. The type \<open>'j\<close> is the parsed JSON.
\<close>

record 'j response =
  status_code :: int
  response_text :: ustring
  content :: bytes
  json :: "exn + 'j"

text \<open>
  One call of \<^verbatim>\<open>requests.get\<close> or \<^verbatim>\<open>requests.post\<close> returns a response, raises
  \<^verbatim>\<open>requests.exceptions.ConnectionError\<close> (with the text that \<^verbatim>\<open>print\<close> shows for
  it), or raises another exception.
\<close>

datatype 'j http_outcome =
    Responds "'j response"
  | ConnectionError ustring
  | Raises exn

text \<open>
  The environment of a call: the remote side, which answers each request (equal
  requests get equal answers: the remote state does not change during a call), and the
  library functions the module calls on what it downloads.
  \<^item> \<open>tar_getnames\<close>: \<^verbatim>\<open>tarfile.open(fileobj=io.BytesIO(b)).getnames()\<close>;
  \<^item> \<open>zip_readlines\<close>: for each member of \<^verbatim>\<open>zipfile.ZipFile(io.BytesIO(b)).infolist()\<close>,
    in order, its \<^verbatim>\<open>readlines()\<close>;
  \<^item> \<open>decode_utf8\<close>: \<^verbatim>\<open>b.decode('utf8')\<close>.
\<close>

record 'j world =
  http :: "request \<Rightarrow> 'j http_outcome"
  tar_getnames :: "bytes \<Rightarrow> exn + ustring list"
  zip_readlines :: "bytes \<Rightarrow> exn + bytes list list"
  decode_utf8 :: "bytes \<Rightarrow> exn + ustring"

text \<open>What a call does that its caller can observe, besides its result.\<close>

datatype event = Sent request | Printed ustring

text \<open>
  The result of a call: the events in order, and either the exception that left the
  function or the value returned, \<open>None\<close> for a function that ends without
  \<^verbatim>\<open>return\<close>.
\<close>

type_synonym 'a outcome = "event list \<times> (exn + 'a option)"

fun requests_sent :: "event list \<Rightarrow> request list" where
  "requests_sent [] = []"
| "requests_sent (Sent rq # evs) = rq # requests_sent evs"
| "requests_sent (Printed s # evs) = requests_sent evs"

fun printed :: "event list \<Rightarrow> ustring list" where
  "printed [] = []"
| "printed (Sent rq # evs) = printed evs"
| "printed (Printed s # evs) = s # printed evs"

section \<open>The module\<close>

text \<open>
  Every function starts with
  \<^verbatim>\<open>try: response = requests.get(...)  except ConnectionError as e: print(e)\<close>:
  afterwards \<open>response\<close> is bound (\<open>Some\<close>), or the error was printed and \<open>response\<close>
  is unbound (\<open>None\<close>), or another exception left the function.
\<close>

definition try_request :: "'j world \<Rightarrow> request \<Rightarrow> event list \<times> (exn + 'j response option)" where
  "try_request w rq =
     (case http w rq of
        Responds r \<Rightarrow> ([Sent rq], Inr (Some r))
      | ConnectionError e \<Rightarrow> ([Sent rq, Printed e], Inr None)
      | Raises x \<Rightarrow> ([Sent rq], Inl x))"

definition status_message :: "'j response \<Rightarrow> ustring" where
  "status_message response = u ''Status code returned a value of '' @ str_int (status_code response)"

definition ehld_stids :: "'j world \<Rightarrow> ustring list outcome" where
  "ehld_stids w =
     (let url = u ''https://reactome.org/download/current/ehld/svgsummary.txt'' in
      case try_request w \<lparr>http_method = GET, url = url, headers = [], data = None\<rparr> of
        (evs, Inl x) \<Rightarrow> (evs, Inl x)
      | (evs, Inr None) \<Rightarrow> (evs, Inl UnboundLocalError)
      | (evs, Inr (Some response)) \<Rightarrow>
          if status_code response = 200 then
            (let content_list = splitlines (response_text response);
                 st_ids = filter (\<lambda>stId. contains (u ''R-'') stId) content_list
             in (evs, Inr (Some st_ids)))
          else (evs @ [Printed (status_message response)], Inr None))"

definition sbgn_stids :: "'j world \<Rightarrow> ustring list outcome" where
  "sbgn_stids w =
     (let url = u ''https://reactome.org/download/current/homo_sapiens.sbgn.tar.gz'' in
      case try_request w \<lparr>http_method = GET, url = url, headers = [], data = None\<rparr> of
        (evs, Inl x) \<Rightarrow> (evs, Inl x)
      | (evs, Inr None) \<Rightarrow> (evs, Inl UnboundLocalError)
      | (evs, Inr (Some response)) \<Rightarrow>
          if status_code response = 200 then
            (case tar_getnames w (content response) of
               Inl x \<Rightarrow> (evs, Inl x)
             | Inr file_names \<Rightarrow>
                 (case ehld_stids w of
                    (evs', Inl x) \<Rightarrow> (evs @ evs', Inl x)
                  | (evs', Inr ehlds) \<Rightarrow>
                      (let sbgns = map (\<lambda>f. replace f (u ''.sbgn'') []) file_names in
                       case ehlds of
                         None \<Rightarrow> (evs @ evs', Inl TypeError)
                       | Some ehlds \<Rightarrow>
                           (let sbgn_only = set_difference_list sbgns ehlds
                            in (evs @ evs', Inr (Some sbgn_only))))))
          else (evs @ [Printed (status_message response)], Inr None))"

text \<open>
  \<^verbatim>\<open>list(_yield_zip(response))\<close>: the lines of every member of the archive.
\<close>

definition yield_zip :: "'j world \<Rightarrow> 'j response \<Rightarrow> exn + bytes list list" where
  "yield_zip w response = zip_readlines w (content response)"

text \<open>The comprehension \<^verbatim>\<open>[c.decode('utf8') for c in lines]\<close> stops at the first line that raises.\<close>

fun decode_all :: "'j world \<Rightarrow> bytes list \<Rightarrow> exn + ustring list" where
  "decode_all w [] = Inr []"
| "decode_all w (c # cs) =
     (case decode_utf8 w c of
        Inl x \<Rightarrow> Inl x
      | Inr s \<Rightarrow> (case decode_all w cs of Inl x \<Rightarrow> Inl x | Inr ss \<Rightarrow> Inr (s # ss)))"

definition read_ziplines :: "'j world \<Rightarrow> 'j response \<Rightarrow> exn + ustring list list" where
  "read_ziplines w response =
     (case yield_zip w response of
        Inl x \<Rightarrow> Inl x
      | Inr [] \<Rightarrow> Inl IndexError
      | Inr (first # others) \<Rightarrow>
          (case decode_all w first of
             Inl x \<Rightarrow> Inl x
           | Inr cs \<Rightarrow> Inr (map (\<lambda>c. split c 9) cs)))"

text \<open>
  The seven remaining functions differ in the request they build; after it they all
  return \<^verbatim>\<open>response.json()\<close> on status 200 and print the status otherwise.
\<close>

definition json_or_report :: "event list \<times> (exn + 'j response option) \<Rightarrow> 'j outcome" where
  "json_or_report r =
     (case r of
        (evs, Inl x) \<Rightarrow> (evs, Inl x)
      | (evs, Inr None) \<Rightarrow> (evs, Inl UnboundLocalError)
      | (evs, Inr (Some response)) \<Rightarrow>
          if status_code response = 200 then
            (case json response of Inl x \<Rightarrow> (evs, Inl x) | Inr j \<Rightarrow> (evs, Inr (Some j)))
          else (evs @ [Printed (status_message response)], Inr None))"

definition accept_json :: "(ustring \<times> ustring) list" where
  "accept_json = [(u ''accept'', u ''application/json'')]"

definition default_stId :: ustring where
  "default_stId = u ''R-HSA-177929''"

definition default_pattern :: ustring where
  "default_pattern = u ''R-HSA-''"

definition pathway_fi :: "'j world \<Rightarrow> ustring \<Rightarrow> ustring \<Rightarrow> 'j outcome" where
  "pathway_fi w stId pattern =
     (let headers = accept_json;
          stId = (if contains pattern stId then replace stId pattern [] else stId);
          url = u ''http://cpws.reactome.org/caBigR3WebApp2018/FIService/network/convertPathwayToFIs/'' @ stId
      in json_or_report
           (try_request w \<lparr>http_method = GET, url = url, headers = headers, data = None\<rparr>))"

definition pathway_boolean_network :: "'j world \<Rightarrow> ustring \<Rightarrow> ustring \<Rightarrow> 'j outcome" where
  "pathway_boolean_network w stId pattern =
     (let headers = accept_json;
          stId = (if contains pattern stId then replace stId pattern [] else stId);
          url = u ''http://cpws.reactome.org/caBigR3WebApp2018/FIService/network/convertPathwayToBooleanNetwork/'' @ stId
      in json_or_report
           (try_request w \<lparr>http_method = GET, url = url, headers = headers, data = None\<rparr>))"

definition pathway_factor_graph :: "'j world \<Rightarrow> ustring \<Rightarrow> ustring \<Rightarrow> 'j outcome" where
  "pathway_factor_graph w stId pattern =
     (let headers = accept_json;
          stId = (if contains pattern stId then replace stId pattern [] else stId);
          url = u ''http://cpws.reactome.org/caBigR3WebApp2018/FIService/network/convertPathwayToFactorGraph/'' @ stId
      in json_or_report
           (try_request w \<lparr>http_method = POST, url = url, headers = headers, data = None\<rparr>))"

definition drug_data_source :: "'j world \<Rightarrow> ustring \<Rightarrow> 'j outcome" where
  "drug_data_source w source =
     (let headers = accept_json;
          url = u ''http://cpws.reactome.org/caBigR3WebApp2018/FIService/drug/listDrugs/'' @ source
      in json_or_report
           (try_request w \<lparr>http_method = GET, url = url, headers = headers, data = None\<rparr>))"

definition drug_target_interactions :: "'j world \<Rightarrow> ustring \<Rightarrow> ustring \<Rightarrow> 'j outcome" where
  "drug_target_interactions w ids source =
     (let headers = accept_json;
          data = ids;
          url = u ''http://cpws.reactome.org/caBigR3WebApp2018/FIService/drug/queryDrugTargetInteractions/'' @ source
      in json_or_report
           (try_request w \<lparr>http_method = POST, url = url, headers = headers, data = Some data\<rparr>))"

text \<open>\<^verbatim>\<open>"/".join([pdId, peId])\<close>\<close>

definition drug_target_interaction_pe_in_diagram ::
  "'j world \<Rightarrow> ustring \<Rightarrow> ustring \<Rightarrow> ustring \<Rightarrow> 'j outcome" where
  "drug_target_interaction_pe_in_diagram w source pdId peId =
     (let headers = accept_json;
          ids = pdId @ u ''/'' @ peId;
          url = u ''http://cpws.reactome.org/caBigR3WebApp2018/FIService/drug/queryInteractionsForPEInDiagram/''
                  @ source @ u ''/'' @ ids
      in json_or_report
           (try_request w \<lparr>http_method = GET, url = url, headers = headers, data = None\<rparr>))"

definition drug_target_interaction_diagram :: "'j world \<Rightarrow> ustring \<Rightarrow> ustring \<Rightarrow> 'j outcome" where
  "drug_target_interaction_diagram w source pdId =
     (let headers = accept_json;
          url = u ''http://cpws.reactome.org/caBigR3WebApp2018/FIService/drug/queryInteractionsForDiagram/''
                  @ source @ u ''/'' @ pdId
      in json_or_report
           (try_request w \<lparr>http_method = GET, url = url, headers = headers, data = None\<rparr>))"

text \<open>The dict that \<open>gene_mappings\<close> builds for one line.\<close>

record mapping =
  name :: ustring
  stId :: ustring
  genes :: "ustring list"

text \<open>
  The loop of \<open>gene_mappings\<close> over the lines that are left, with the records built so
  far: \<^verbatim>\<open>gm[i][0]\<close> and \<^verbatim>\<open>gm[i][1]\<close> raise on a line with fewer than two fields.
\<close>

fun gene_mappings_loop :: "ustring list list \<Rightarrow> mapping list \<Rightarrow> exn + mapping list" where
  "gene_mappings_loop [] relations = Inr relations"
| "gene_mappings_loop (e # gm) relations =
     (case map strip e of
        n # s # gs \<Rightarrow>
          gene_mappings_loop gm (relations @ [\<lparr>name = n, stId = s, genes = gs\<rparr>])
      | _ \<Rightarrow> Inl IndexError)"

definition gene_mappings :: "'j world \<Rightarrow> mapping list outcome" where
  "gene_mappings w =
     (let url = u ''https://reactome.org/download/current/ReactomePathways.gmt.zip'' in
      case try_request w \<lparr>http_method = GET, url = url, headers = [], data = None\<rparr> of
        (evs, Inl x) \<Rightarrow> (evs, Inl x)
      | (evs, Inr None) \<Rightarrow> (evs, Inl UnboundLocalError)
      | (evs, Inr (Some response)) \<Rightarrow>
          if status_code response = 200 then
            (case read_ziplines w response of
               Inl x \<Rightarrow> (evs, Inl x)
             | Inr gm \<Rightarrow>
                 (case gene_mappings_loop gm [] of
                    Inl x \<Rightarrow> (evs, Inl x)
                  | Inr relations \<Rightarrow> (evs, Inr (Some relations))))
          else (evs @ [Printed (status_message response)], Inr None))"

section \<open>Example environments\<close>

text \<open>
  Concrete environments, used to run the functions. \<open>ascii_decode\<close> is
  \<^verbatim>\<open>decode('utf8')\<close> on ASCII bytes and raises on any other byte.
\<close>

definition ascii_decode :: "bytes \<Rightarrow> exn + ustring" where
  "ascii_decode b =
     (if list_all (\<lambda>c. (of_char c :: nat) < 128) b then Inr (map of_char b)
      else Inl (LibraryError (u ''UnicodeDecodeError'')))"

definition example_world ::
  "(request \<Rightarrow> unit http_outcome) \<Rightarrow> ustring list \<Rightarrow> bytes list list \<Rightarrow> unit world" where
  "example_world h names members =
     \<lparr>http = h, tar_getnames = (\<lambda>b. Inr names), zip_readlines = (\<lambda>b. Inr members),
      decode_utf8 = ascii_decode\<rparr>"

definition answer :: "int \<Rightarrow> ustring \<Rightarrow> unit response" where
  "answer s t = \<lparr>status_code = s, response_text = t, content = [], json = Inr ()\<rparr>"

text \<open>No connection can be made.\<close>

definition unreachable :: "unit world" where
  "unreachable = example_world (\<lambda>rq. ConnectionError (u ''Connection refused'')) [] []"

text \<open>Every request is answered with the same status and an empty body.\<close>

definition answering :: "int \<Rightarrow> unit world" where
  "answering s = example_world (\<lambda>rq. Responds (answer s [])) [] []"

text \<open>
  The summary file lists one diagram under a title line; the archive holds the diagram
  of that pathway, the diagram of another one, and a file \<open>README.sbgn\<close>.
\<close>

definition diagrams :: "unit world" where
  "diagrams =
     example_world (\<lambda>rq. Responds (answer 200 (u ''Title'' @ [10] @ u ''R-HSA-1'' @ [10])))
       [u ''R-HSA-1.sbgn'', u ''R-HSA-2.sbgn'', u ''README.sbgn''] []"

text \<open>
  A gene-set file of two lines: a pathway with two genes, and a pathway without genes,
  the line being \<open>name TAB stId NEWLINE\<close>.
\<close>

definition gene_sets :: "unit world" where
  "gene_sets =
     example_world (\<lambda>rq. Responds (answer 200 [])) []
       [[''Apoptosis'' @ [CHR 0x09] @ ''R-HSA-109581'' @ [CHR 0x09] @ ''BAX'' @ [CHR 0x09]
           @ ''TP53'' @ [CHR 0x0A],
         ''Empty'' @ [CHR 0x09] @ ''R-HSA-1'' @ [CHR 0x0A]]]"

text \<open>A gene-set file whose only line starts with two tabs.\<close>

definition unnamed_gene_set :: "unit world" where
  "unnamed_gene_set =
     example_world (\<lambda>rq. Responds (answer 200 [])) []
       [[[CHR 0x09, CHR 0x09] @ ''TP53'' @ [CHR 0x0A]]]"

text \<open>A gene-set file whose second line has no tab.\<close>

definition broken_gene_sets :: "unit world" where
  "broken_gene_sets =
     example_world (\<lambda>rq. Responds (answer 200 [])) []
       [[''Empty'' @ [CHR 0x09] @ ''R-HSA-1'' @ [CHR 0x0A], ''trailer'' @ [CHR 0x0A]]]"

text \<open>
  The archive is served, with one member; the summary file cannot be reached.
\<close>

definition summary_unreachable :: "unit world" where
  "summary_unreachable =
     example_world
       (\<lambda>rq. if url rq = u ''https://reactome.org/download/current/homo_sapiens.sbgn.tar.gz''
             then Responds (answer 200 []) else ConnectionError (u ''Connection refused''))
       [u ''R-HSA-1.sbgn''] []"

text \<open>
  The archive is served, with one member; the request for the summary file is answered
  with status 404.
\<close>

definition summary_missing :: "unit world" where
  "summary_missing =
     example_world
       (\<lambda>rq. if url rq = u ''https://reactome.org/download/current/homo_sapiens.sbgn.tar.gz''
             then Responds (answer 200 []) else Responds (answer 404 []))
       [u ''R-HSA-1.sbgn''] []"

section \<open>Words of the specification\<close>

text \<open>
  The record that the specification describes for one line of the gene-set file:
  \<open>name\<close> is field 0, \<open>stId\<close> is field 1 and \<open>genes\<close> are all remaining fields of the
  line split at tabs, every field with its surrounding whitespace removed. It is
  compared below with what the loop of \<open>gene_mappings\<close> builds.
\<close>

definition record_of_line :: "ustring \<Rightarrow> mapping" where
  "record_of_line c =
     (let fields = map strip (split c 9)
      in \<lparr>name = fields ! 0, stId = fields ! 1, genes = drop 2 fields\<rparr>)"

text \<open>A string without leading or trailing whitespace.\<close>

definition trimmed :: "ustring \<Rightarrow> bool" where
  "trimmed s = (s = [] \<or> (\<not> isspace (hd s) \<and> \<not> isspace (last s)))"

section \<open>Strings\<close>

lemma contains_sublist: "contains p s \<longleftrightarrow> sublist p s"
  by (induction s) (auto simp: sublist_Cons_right)

lemma u_append: "u (a @ b) = u a @ u b"
  by (simp add: u_def)

lemma replace_empty_old: "replace s [] [] = s"
  by (induction s) (simp_all add: replace.simps)

lemma replace_Nil: "replace [] old [] = []"
  by (simp add: replace.simps)

lemma replace_prefix:
  "old \<noteq> [] \<Longrightarrow> replace (old @ rest) old new = new @ replace rest old new"
  by (subst replace.simps) simp

lemma replace_Cons_no_prefix:
  "old \<noteq> [] \<Longrightarrow> \<not> prefix old (c # cs) \<Longrightarrow> replace (c # cs) old new = c # replace cs old new"
  by (subst replace.simps) simp

lemma replace_absent: "\<not> contains old s \<Longrightarrow> replace s old new = s"
proof (induction s)
  case Nil
  then show ?case by (simp add: replace.simps)
next
  case (Cons c cs)
  then have "old \<noteq> []" "\<not> prefix old (c # cs)" "\<not> contains old cs" by auto
  with Cons.IH show ?case by (simp add: replace_Cons_no_prefix)
qed

lemma replace_pass_over:
  "old \<noteq> [] \<Longrightarrow> set p \<inter> set old = {} \<Longrightarrow> replace (p @ b) old new = p @ replace b old new"
proof (induction p)
  case Nil
  then show ?case by simp
next
  case (Cons c p)
  have "\<not> prefix old ((c # p) @ b)"
  proof
    assume "prefix old ((c # p) @ b)"
    with Cons.prems(1) have "hd old = c" by (cases old) auto
    with Cons.prems show False by (cases old) auto
  qed
  with Cons show ?case by (simp add: replace_Cons_no_prefix)
qed

lemma contains_skip_disjoint:
  assumes "set p \<inter> set old = {}" "contains p (old @ rest)"
  shows "contains p rest"
proof -
  from assms(2) have "sublist p (old @ rest)" by (simp add: contains_sublist)
  then consider "sublist p old" | "sublist p rest"
    | xs1 xs2 where "p = xs1 @ xs2" "suffix xs1 old" "prefix xs2 rest"
    by (auto simp: sublist_append)
  then have "sublist p rest"
  proof cases
    case 1
    then have "set p \<subseteq> set old" by (rule set_mono_sublist)
    then have "set p \<inter> set old = set p" by (rule Int_absorb2)
    with assms(1) have "p = []" by simp
    then show ?thesis by simp
  next
    case 2
    then show ?thesis .
  next
    case 3
    from 3(2) have "set xs1 \<subseteq> set old" by (rule set_mono_suffix)
    then have "set xs1 \<inter> set old = set xs1" by (rule Int_absorb2)
    moreover from assms(1) 3(1) have "set xs1 \<inter> set old = {}" by auto
    ultimately have "xs1 = []" by simp
    with 3(1,3) show ?thesis by simp
  qed
  then show ?thesis by (simp add: contains_sublist)
qed

lemma contains_replace_disjoint:
  "old \<noteq> [] \<Longrightarrow> set p \<inter> set old = {} \<Longrightarrow> contains p s \<Longrightarrow> contains p (replace s old new)"
proof (induction s old new rule: replace.induct)
  case (1 s old new)
  show ?case
  proof (cases "s = []")
    case True
    with 1 show ?thesis by (simp add: replace.simps)
  next
    case False
    then obtain c cs where s: "s = c # cs" by (cases s) auto
    show ?thesis
    proof (cases "prefix old s")
      case True
      then obtain rest where rest: "s = old @ rest" by (auto simp: prefix_def)
      with "1.prems" have "contains p rest" by (auto intro: contains_skip_disjoint)
      with "1.IH"(1) "1.prems" False True rest have "contains p (replace rest old new)" by simp
      then have "sublist p (new @ replace rest old new)"
        by (simp add: contains_sublist sublist_append)
      with rest "1.prems"(1) show ?thesis by (simp add: replace_prefix contains_sublist)
    next
      case np: False
      with s "1.prems"(1) have r: "replace s old new = c # replace cs old new"
        by (simp add: replace_Cons_no_prefix)
      from "1.prems"(3) s consider "prefix p (c # cs)" | "contains p cs" by auto
      then show ?thesis
      proof cases
        case 1
        then obtain b where b: "c # cs = p @ b" by (auto simp: prefix_def)
        with s "1.prems" have "replace s old new = p @ replace b old new"
          by (simp add: replace_pass_over)
        then show ?thesis by (simp add: contains_sublist)
      next
        case 2
        with "1.IH"(2) "1.prems" False np s have "contains p (replace cs old new)" by simp
        with r show ?thesis by simp
      qed
    qed
  qed
qed

text \<open>\<open>digits\<close> writes a number in decimal: ASCII digits, whose value is the number.\<close>

lemma digits_ok: "set (digits n) \<subseteq> {48..57} \<and> foldl (\<lambda>a d. 10 * a + (d - 48)) 0 (digits n) = n"
proof (induction n rule: digits.induct)
  case (1 n)
  show ?case
  proof (cases "n < 10")
    case True
    then show ?thesis by (subst digits.simps, subst digits.simps) auto
  next
    case False
    with 1 show ?thesis by (subst digits.simps, subst digits.simps) auto
  qed
qed

section \<open>Requests and events\<close>

lemma u_eq_iff: "u a = u b \<longleftrightarrow> a = b"
proof -
  have "inj (of_char :: char \<Rightarrow> nat)" by (rule injI) simp
  then show ?thesis unfolding u_def by (rule inj_map_eq_map)
qed

lemma requests_sent_try: "requests_sent (fst (try_request w rq)) = [rq]"
  by (simp add: try_request_def split: http_outcome.splits)

lemma fst_json_or_report_sent:
  "requests_sent (fst (json_or_report (try_request w rq))) = [rq]"
  by (simp add: json_or_report_def try_request_def split: http_outcome.splits sum.splits)

lemma pathway_identifier: "(if contains pattern st_id then replace st_id pattern [] else st_id) = replace st_id pattern []"
  by (simp add: replace_absent)

section \<open>The pathway-conversion functions\<close>

text \<open>
  Claim C1, as the code has it. Each of \<open>pathway_fi\<close>, \<open>pathway_boolean_network\<close> and
  \<open>pathway_factor_graph\<close> sends exactly one request, and the identifier at the end of
  its URL is \<^verbatim>\<open>stId.replace(pattern, "")\<close>: every occurrence of the pattern found
  scanning from the left is removed, wherever it stands. An identifier that does not
  contain the pattern is passed through unchanged; for an identifier that starts with
  the pattern, the replacement goes on in the rest, and the result is the rest when the
  pattern does not occur there again.
\<close>

theorem pathway_conversion_identifier:
  "map url (requests_sent (fst (pathway_fi w st_id pattern))) =
     [u ''http://cpws.reactome.org/caBigR3WebApp2018/FIService/network/convertPathwayToFIs/''
        @ replace st_id pattern []]
   \<and> map url (requests_sent (fst (pathway_boolean_network w st_id pattern))) =
     [u ''http://cpws.reactome.org/caBigR3WebApp2018/FIService/network/convertPathwayToBooleanNetwork/''
        @ replace st_id pattern []]
   \<and> map url (requests_sent (fst (pathway_factor_graph w st_id pattern))) =
     [u ''http://cpws.reactome.org/caBigR3WebApp2018/FIService/network/convertPathwayToFactorGraph/''
        @ replace st_id pattern []]
   \<and> (\<not> contains pattern st_id \<longrightarrow> replace st_id pattern [] = st_id)
   \<and> (pattern \<noteq> [] \<and> st_id = pattern @ rest \<longrightarrow>
        replace st_id pattern [] = replace rest pattern [])
   \<and> (pattern \<noteq> [] \<and> st_id = pattern @ rest \<and> \<not> contains pattern rest \<longrightarrow>
        replace st_id pattern [] = rest)"
  by (simp add: pathway_fi_def pathway_boolean_network_def pathway_factor_graph_def
      fst_json_or_report_sent pathway_identifier replace_absent replace_prefix)

text \<open>
  The theorem at \<open>R-HSA-177929\<close>, which starts with the pattern \<open>R-HSA-\<close> and does not
  hold it again, and at \<open>177929\<close>, which does not hold it.
\<close>

theorem pathway_conversion_identifier_witness:
  "u ''R-HSA-'' \<noteq> [] \<and> u ''R-HSA-177929'' = u ''R-HSA-'' @ u ''177929''
   \<and> \<not> contains (u ''R-HSA-'') (u ''177929'')
   \<and> map url (requests_sent (fst (pathway_fi (answering 200) (u ''R-HSA-177929'') (u ''R-HSA-'')))) =
       [u ''http://cpws.reactome.org/caBigR3WebApp2018/FIService/network/convertPathwayToFIs/''
          @ u ''177929'']
   \<and> map url (requests_sent (fst (pathway_factor_graph (answering 200) (u ''177929'') (u ''R-HSA-'')))) =
       [u ''http://cpws.reactome.org/caBigR3WebApp2018/FIService/network/convertPathwayToFactorGraph/''
          @ u ''177929'']"
proof -
  have ne: "u ''R-HSA-'' \<noteq> []" by (simp add: u_def)
  have split: "u ''R-HSA-177929'' = u ''R-HSA-'' @ u ''177929''"
    by (simp add: u_append [symmetric])
  have absent: "\<not> contains (u ''R-HSA-'') (u ''177929'')" by (simp add: u_def)
  from ne split absent
    pathway_conversion_identifier [of "answering 200" "u ''R-HSA-177929''" "u ''R-HSA-''" "u ''177929''"]
    pathway_conversion_identifier [of "answering 200" "u ''177929''" "u ''R-HSA-''" "[]"]
  show ?thesis by simp
qed

text \<open>
  Claim C1 as stated fails: \<open>R-HSA-R-HSA-1\<close> holds the pattern, and the identifier sent
  is \<open>1\<close>, not \<open>R-HSA-1\<close>, the input with one leading occurrence removed.
\<close>

theorem pathway_leading_occurrence_counterexample:
  "contains (u ''R-HSA-'') (u ''R-HSA-R-HSA-1'')
   \<and> u ''R-HSA-R-HSA-1'' = u ''R-HSA-'' @ u ''R-HSA-1''
   \<and> map url (requests_sent (fst (pathway_fi (answering 200) (u ''R-HSA-R-HSA-1'') (u ''R-HSA-'')))) =
       [u ''http://cpws.reactome.org/caBigR3WebApp2018/FIService/network/convertPathwayToFIs/''
          @ u ''1'']
   \<and> map url (requests_sent (fst (pathway_fi (answering 200) (u ''R-HSA-R-HSA-1'') (u ''R-HSA-'')))) \<noteq>
       [u ''http://cpws.reactome.org/caBigR3WebApp2018/FIService/network/convertPathwayToFIs/''
          @ u ''R-HSA-1'']"
proof -
  have "contains (u ''R-HSA-'') (u ''R-HSA-R-HSA-1'')" by (simp add: u_def)
  moreover have "u ''R-HSA-R-HSA-1'' = u ''R-HSA-'' @ u ''R-HSA-1''"
    by (simp add: u_append [symmetric])
  moreover have "replace (u ''R-HSA-R-HSA-1'') (u ''R-HSA-'') [] = u ''1''"
    by (simp add: u_def replace.simps)
  moreover have "u ''1'' \<noteq> u ''R-HSA-1''" by (simp add: u_eq_iff)
  ultimately show ?thesis
    by (simp add: pathway_fi_def fst_json_or_report_sent)
qed

text \<open>
  Claim C8: called with its default arguments, \<open>stId = "R-HSA-177929"\<close> and
  \<open>pattern = "R-HSA-"\<close>, \<open>pathway_fi\<close> sends one GET request, to the URL that ends in
  \<open>convertPathwayToFIs/177929\<close>, whatever the remote side does.
\<close>

theorem pathway_fi_default_request:
  "default_stId = u ''R-HSA-177929'' \<and> default_pattern = u ''R-HSA-'' \<and>
   requests_sent (fst (pathway_fi w default_stId default_pattern)) =
     [\<lparr>http_method = GET,
       url = u ''http://cpws.reactome.org/caBigR3WebApp2018/FIService/network/convertPathwayToFIs/177929'',
       headers = [(u ''accept'', u ''application/json'')], data = None\<rparr>]"
proof -
  have "replace (u ''R-HSA-177929'') (u ''R-HSA-'') [] = u ''177929''"
    by (simp add: u_def replace.simps)
  moreover have "u ''http://cpws.reactome.org/caBigR3WebApp2018/FIService/network/convertPathwayToFIs/177929''
     = u ''http://cpws.reactome.org/caBigR3WebApp2018/FIService/network/convertPathwayToFIs/'' @ u ''177929''"
    by (simp add: u_append [symmetric])
  ultimately show ?thesis
    by (simp add: pathway_fi_def default_stId_def default_pattern_def accept_json_def
      fst_json_or_report_sent pathway_identifier)
qed

section \<open>Failures of the request\<close>

lemma try_request_connection:
  "http w rq = ConnectionError e \<Longrightarrow> try_request w rq = ([Sent rq, Printed e], Inr None)"
  by (simp add: try_request_def)

lemma try_request_responds:
  "http w rq = Responds r \<Longrightarrow> try_request w rq = ([Sent rq], Inr (Some r))"
  by (simp add: try_request_def)

text \<open>
  Claim C3: in every function, when the connection fails (\<^verbatim>\<open>requests\<close> raises
  \<open>ConnectionError\<close> for the request of the function), the call sends that request,
  prints the error, does nothing more, and ends with \<open>UnboundLocalError\<close>, the fault of
  reading the local variable \<open>response\<close> that was never assigned. It returns no value,
  so not the \<open>None\<close> of "no data" either. For \<open>sbgn_stids\<close> the same holds when its own
  request succeeds and the connection fails in the nested \<open>ehld_stids\<close> call.
\<close>

theorem connection_failure_unbound_response:
  "(http w \<lparr>http_method = GET, url = u ''https://reactome.org/download/current/ehld/svgsummary.txt'',
          headers = [], data = None\<rparr> = ConnectionError e \<longrightarrow>
      ehld_stids w =
        ([Sent \<lparr>http_method = GET, url = u ''https://reactome.org/download/current/ehld/svgsummary.txt'',
          headers = [], data = None\<rparr>,
          Printed e], Inl UnboundLocalError))
   \<and> (http w \<lparr>http_method = GET, url = u ''https://reactome.org/download/current/homo_sapiens.sbgn.tar.gz'',
          headers = [], data = None\<rparr> = ConnectionError e \<longrightarrow>
      sbgn_stids w =
        ([Sent \<lparr>http_method = GET, url = u ''https://reactome.org/download/current/homo_sapiens.sbgn.tar.gz'',
          headers = [], data = None\<rparr>,
          Printed e], Inl UnboundLocalError))
   \<and> (http w \<lparr>http_method = GET, url = u ''https://reactome.org/download/current/homo_sapiens.sbgn.tar.gz'',
          headers = [], data = None\<rparr> = Responds response
      \<and> status_code response = 200
      \<and> tar_getnames w (content response) = Inr file_names
      \<and> http w \<lparr>http_method = GET, url = u ''https://reactome.org/download/current/ehld/svgsummary.txt'',
          headers = [], data = None\<rparr> = ConnectionError e \<longrightarrow>
      sbgn_stids w =
        ([Sent \<lparr>http_method = GET, url = u ''https://reactome.org/download/current/homo_sapiens.sbgn.tar.gz'',
          headers = [], data = None\<rparr>,
          Sent \<lparr>http_method = GET, url = u ''https://reactome.org/download/current/ehld/svgsummary.txt'',
          headers = [], data = None\<rparr>,
          Printed e], Inl UnboundLocalError))
   \<and> (http w \<lparr>http_method = GET, url = u ''https://reactome.org/download/current/ReactomePathways.gmt.zip'',
          headers = [], data = None\<rparr> = ConnectionError e \<longrightarrow>
      gene_mappings w =
        ([Sent \<lparr>http_method = GET, url = u ''https://reactome.org/download/current/ReactomePathways.gmt.zip'',
          headers = [], data = None\<rparr>,
          Printed e], Inl UnboundLocalError))
   \<and> (http w \<lparr>http_method = GET, url = u ''http://cpws.reactome.org/caBigR3WebApp2018/FIService/network/convertPathwayToFIs/'' @ replace st_id pattern [],
          headers = accept_json, data = None\<rparr> = ConnectionError e \<longrightarrow>
      pathway_fi w st_id pattern =
        ([Sent \<lparr>http_method = GET, url = u ''http://cpws.reactome.org/caBigR3WebApp2018/FIService/network/convertPathwayToFIs/'' @ replace st_id pattern [],
          headers = accept_json, data = None\<rparr>,
          Printed e], Inl UnboundLocalError))
   \<and> (http w \<lparr>http_method = GET, url = u ''http://cpws.reactome.org/caBigR3WebApp2018/FIService/network/convertPathwayToBooleanNetwork/'' @ replace st_id pattern [],
          headers = accept_json, data = None\<rparr> = ConnectionError e \<longrightarrow>
      pathway_boolean_network w st_id pattern =
        ([Sent \<lparr>http_method = GET, url = u ''http://cpws.reactome.org/caBigR3WebApp2018/FIService/network/convertPathwayToBooleanNetwork/'' @ replace st_id pattern [],
          headers = accept_json, data = None\<rparr>,
          Printed e], Inl UnboundLocalError))
   \<and> (http w \<lparr>http_method = POST, url = u ''http://cpws.reactome.org/caBigR3WebApp2018/FIService/network/convertPathwayToFactorGraph/'' @ replace st_id pattern [],
          headers = accept_json, data = None\<rparr> = ConnectionError e \<longrightarrow>
      pathway_factor_graph w st_id pattern =
        ([Sent \<lparr>http_method = POST, url = u ''http://cpws.reactome.org/caBigR3WebApp2018/FIService/network/convertPathwayToFactorGraph/'' @ replace st_id pattern [],
          headers = accept_json, data = None\<rparr>,
          Printed e], Inl UnboundLocalError))
   \<and> (http w \<lparr>http_method = GET, url = u ''http://cpws.reactome.org/caBigR3WebApp2018/FIService/drug/listDrugs/'' @ source,
          headers = accept_json, data = None\<rparr> = ConnectionError e \<longrightarrow>
      drug_data_source w source =
        ([Sent \<lparr>http_method = GET, url = u ''http://cpws.reactome.org/caBigR3WebApp2018/FIService/drug/listDrugs/'' @ source,
          headers = accept_json, data = None\<rparr>,
          Printed e], Inl UnboundLocalError))
   \<and> (http w \<lparr>http_method = POST, url = u ''http://cpws.reactome.org/caBigR3WebApp2018/FIService/drug/queryDrugTargetInteractions/'' @ source,
          headers = accept_json, data = Some ids\<rparr> = ConnectionError e \<longrightarrow>
      drug_target_interactions w ids source =
        ([Sent \<lparr>http_method = POST, url = u ''http://cpws.reactome.org/caBigR3WebApp2018/FIService/drug/queryDrugTargetInteractions/'' @ source,
          headers = accept_json, data = Some ids\<rparr>,
          Printed e], Inl UnboundLocalError))
   \<and> (http w \<lparr>http_method = GET, url = u ''http://cpws.reactome.org/caBigR3WebApp2018/FIService/drug/queryInteractionsForPEInDiagram/''
                  @ source @ u ''/'' @ pdId @ u ''/'' @ peId,
          headers = accept_json, data = None\<rparr> = ConnectionError e \<longrightarrow>
      drug_target_interaction_pe_in_diagram w source pdId peId =
        ([Sent \<lparr>http_method = GET, url = u ''http://cpws.reactome.org/caBigR3WebApp2018/FIService/drug/queryInteractionsForPEInDiagram/''
                  @ source @ u ''/'' @ pdId @ u ''/'' @ peId,
          headers = accept_json, data = None\<rparr>,
          Printed e], Inl UnboundLocalError))
   \<and> (http w \<lparr>http_method = GET, url = u ''http://cpws.reactome.org/caBigR3WebApp2018/FIService/drug/queryInteractionsForDiagram/''
                  @ source @ u ''/'' @ pdId,
          headers = accept_json, data = None\<rparr> = ConnectionError e \<longrightarrow>
      drug_target_interaction_diagram w source pdId =
        ([Sent \<lparr>http_method = GET, url = u ''http://cpws.reactome.org/caBigR3WebApp2018/FIService/drug/queryInteractionsForDiagram/''
                  @ source @ u ''/'' @ pdId,
          headers = accept_json, data = None\<rparr>,
          Printed e], Inl UnboundLocalError))"
  by (simp add: ehld_stids_def sbgn_stids_def gene_mappings_def pathway_fi_def pathway_boolean_network_def
      pathway_factor_graph_def drug_data_source_def drug_target_interactions_def
      drug_target_interaction_pe_in_diagram_def drug_target_interaction_diagram_def
      Let_def pathway_identifier try_request_connection try_request_responds json_or_report_def)

text \<open>
  The theorem where no connection can be made, and for \<open>sbgn_stids\<close> also where only
  the summary file cannot be reached.
\<close>

theorem connection_failure_unbound_response_witness:
  "ehld_stids unreachable =
       ([Sent \<lparr>http_method = GET, url = u ''https://reactome.org/download/current/ehld/svgsummary.txt'',
          headers = [], data = None\<rparr>,
         Printed (u ''Connection refused'')], Inl UnboundLocalError)
   \<and> sbgn_stids unreachable =
       ([Sent \<lparr>http_method = GET, url = u ''https://reactome.org/download/current/homo_sapiens.sbgn.tar.gz'',
          headers = [], data = None\<rparr>,
         Printed (u ''Connection refused'')], Inl UnboundLocalError)
   \<and> sbgn_stids summary_unreachable =
       ([Sent \<lparr>http_method = GET, url = u ''https://reactome.org/download/current/homo_sapiens.sbgn.tar.gz'',
          headers = [], data = None\<rparr>,
         Sent \<lparr>http_method = GET, url = u ''https://reactome.org/download/current/ehld/svgsummary.txt'',
          headers = [], data = None\<rparr>,
         Printed (u ''Connection refused'')], Inl UnboundLocalError)
   \<and> gene_mappings unreachable =
       ([Sent \<lparr>http_method = GET, url = u ''https://reactome.org/download/current/ReactomePathways.gmt.zip'',
          headers = [], data = None\<rparr>,
         Printed (u ''Connection refused'')], Inl UnboundLocalError)
   \<and> pathway_fi unreachable (u ''R-HSA-177929'') (u ''R-HSA-'') =
       ([Sent \<lparr>http_method = GET, url = u ''http://cpws.reactome.org/caBigR3WebApp2018/FIService/network/convertPathwayToFIs/'' @ u ''177929'',
          headers = accept_json, data = None\<rparr>,
         Printed (u ''Connection refused'')], Inl UnboundLocalError)
   \<and> pathway_boolean_network unreachable (u ''R-HSA-177929'') (u ''R-HSA-'') =
       ([Sent \<lparr>http_method = GET, url = u ''http://cpws.reactome.org/caBigR3WebApp2018/FIService/network/convertPathwayToBooleanNetwork/'' @ u ''177929'',
          headers = accept_json, data = None\<rparr>,
         Printed (u ''Connection refused'')], Inl UnboundLocalError)
   \<and> pathway_factor_graph unreachable (u ''R-HSA-177929'') (u ''R-HSA-'') =
       ([Sent \<lparr>http_method = POST, url = u ''http://cpws.reactome.org/caBigR3WebApp2018/FIService/network/convertPathwayToFactorGraph/'' @ u ''177929'',
          headers = accept_json, data = None\<rparr>,
         Printed (u ''Connection refused'')], Inl UnboundLocalError)
   \<and> drug_data_source unreachable (u ''drugcentral'') =
       ([Sent \<lparr>http_method = GET, url = u ''http://cpws.reactome.org/caBigR3WebApp2018/FIService/drug/listDrugs/'' @ (u ''drugcentral''),
          headers = accept_json, data = None\<rparr>,
         Printed (u ''Connection refused'')], Inl UnboundLocalError)
   \<and> drug_target_interactions unreachable (u ''EGFR'') (u ''drugcentral'') =
       ([Sent \<lparr>http_method = POST, url = u ''http://cpws.reactome.org/caBigR3WebApp2018/FIService/drug/queryDrugTargetInteractions/'' @ (u ''drugcentral''),
          headers = accept_json, data = Some (u ''EGFR'')\<rparr>,
         Printed (u ''Connection refused'')], Inl UnboundLocalError)
   \<and> drug_target_interaction_pe_in_diagram unreachable (u ''drugcentral'') (u ''507988'') (u ''1220578'') =
       ([Sent \<lparr>http_method = GET, url = u ''http://cpws.reactome.org/caBigR3WebApp2018/FIService/drug/queryInteractionsForPEInDiagram/''
                  @ (u ''drugcentral'') @ u ''/'' @ (u ''507988'') @ u ''/'' @ (u ''1220578''),
          headers = accept_json, data = None\<rparr>,
         Printed (u ''Connection refused'')], Inl UnboundLocalError)
   \<and> drug_target_interaction_diagram unreachable (u ''drugcentral'') (u ''507988'') =
       ([Sent \<lparr>http_method = GET, url = u ''http://cpws.reactome.org/caBigR3WebApp2018/FIService/drug/queryInteractionsForDiagram/''
                  @ (u ''drugcentral'') @ u ''/'' @ (u ''507988''),
          headers = accept_json, data = None\<rparr>,
         Printed (u ''Connection refused'')], Inl UnboundLocalError)"
proof -
  have down: "http unreachable rq = ConnectionError (u ''Connection refused'')" for rq
    by (simp add: unreachable_def example_world_def)
  have rep: "replace (u ''R-HSA-177929'') (u ''R-HSA-'') [] = u ''177929''"
    by (simp add: u_def replace.simps)
  have archive: "http summary_unreachable \<lparr>http_method = GET, url = u ''https://reactome.org/download/current/homo_sapiens.sbgn.tar.gz'',
          headers = [], data = None\<rparr> = Responds (answer 200 [])"
    and status: "status_code (answer 200 []) = (200 :: int)"
    and names: "tar_getnames summary_unreachable (content (answer 200 [])) = Inr [u ''R-HSA-1.sbgn'']"
    and summary: "http summary_unreachable \<lparr>http_method = GET, url = u ''https://reactome.org/download/current/ehld/svgsummary.txt'',
          headers = [], data = None\<rparr> = ConnectionError (u ''Connection refused'')"
    by (simp_all add: summary_unreachable_def example_world_def answer_def u_eq_iff)
  from connection_failure_unbound_response [of unreachable "u ''Connection refused''"
      "answer 200 []" "[]" "u ''R-HSA-177929''" "u ''R-HSA-''" "u ''drugcentral''" "u ''EGFR''" "u ''507988''" "u ''1220578''"] down rep
  have single: "ehld_stids unreachable =
       ([Sent \<lparr>http_method = GET, url = u ''https://reactome.org/download/current/ehld/svgsummary.txt'',
          headers = [], data = None\<rparr>,
         Printed (u ''Connection refused'')], Inl UnboundLocalError)
       \<and> sbgn_stids unreachable =
       ([Sent \<lparr>http_method = GET, url = u ''https://reactome.org/download/current/homo_sapiens.sbgn.tar.gz'',
          headers = [], data = None\<rparr>,
         Printed (u ''Connection refused'')], Inl UnboundLocalError)
       \<and> gene_mappings unreachable =
       ([Sent \<lparr>http_method = GET, url = u ''https://reactome.org/download/current/ReactomePathways.gmt.zip'',
          headers = [], data = None\<rparr>,
         Printed (u ''Connection refused'')], Inl UnboundLocalError)
       \<and> pathway_fi unreachable (u ''R-HSA-177929'') (u ''R-HSA-'') =
       ([Sent \<lparr>http_method = GET, url = u ''http://cpws.reactome.org/caBigR3WebApp2018/FIService/network/convertPathwayToFIs/'' @ u ''177929'',
          headers = accept_json, data = None\<rparr>,
         Printed (u ''Connection refused'')], Inl UnboundLocalError)
       \<and> pathway_boolean_network unreachable (u ''R-HSA-177929'') (u ''R-HSA-'') =
       ([Sent \<lparr>http_method = GET, url = u ''http://cpws.reactome.org/caBigR3WebApp2018/FIService/network/convertPathwayToBooleanNetwork/'' @ u ''177929'',
          headers = accept_json, data = None\<rparr>,
         Printed (u ''Connection refused'')], Inl UnboundLocalError)
       \<and> pathway_factor_graph unreachable (u ''R-HSA-177929'') (u ''R-HSA-'') =
       ([Sent \<lparr>http_method = POST, url = u ''http://cpws.reactome.org/caBigR3WebApp2018/FIService/network/convertPathwayToFactorGraph/'' @ u ''177929'',
          headers = accept_json, data = None\<rparr>,
         Printed (u ''Connection refused'')], Inl UnboundLocalError)
       \<and> drug_data_source unreachable (u ''drugcentral'') =
       ([Sent \<lparr>http_method = GET, url = u ''http://cpws.reactome.org/caBigR3WebApp2018/FIService/drug/listDrugs/'' @ (u ''drugcentral''),
          headers = accept_json, data = None\<rparr>,
         Printed (u ''Connection refused'')], Inl UnboundLocalError)
       \<and> drug_target_interactions unreachable (u ''EGFR'') (u ''drugcentral'') =
       ([Sent \<lparr>http_method = POST, url = u ''http://cpws.reactome.org/caBigR3WebApp2018/FIService/drug/queryDrugTargetInteractions/'' @ (u ''drugcentral''),
          headers = accept_json, data = Some (u ''EGFR'')\<rparr>,
         Printed (u ''Connection refused'')], Inl UnboundLocalError)
       \<and> drug_target_interaction_pe_in_diagram unreachable (u ''drugcentral'') (u ''507988'') (u ''1220578'') =
       ([Sent \<lparr>http_method = GET, url = u ''http://cpws.reactome.org/caBigR3WebApp2018/FIService/drug/queryInteractionsForPEInDiagram/''
                  @ (u ''drugcentral'') @ u ''/'' @ (u ''507988'') @ u ''/'' @ (u ''1220578''),
          headers = accept_json, data = None\<rparr>,
         Printed (u ''Connection refused'')], Inl UnboundLocalError)
       \<and> drug_target_interaction_diagram unreachable (u ''drugcentral'') (u ''507988'') =
       ([Sent \<lparr>http_method = GET, url = u ''http://cpws.reactome.org/caBigR3WebApp2018/FIService/drug/queryInteractionsForDiagram/''
                  @ (u ''drugcentral'') @ u ''/'' @ (u ''507988''),
          headers = accept_json, data = None\<rparr>,
         Printed (u ''Connection refused'')], Inl UnboundLocalError)"
    by simp
  from connection_failure_unbound_response [of summary_unreachable "u ''Connection refused''"
      "answer 200 []" "[u ''R-HSA-1.sbgn'']"] archive status names summary
  have "sbgn_stids summary_unreachable =
       ([Sent \<lparr>http_method = GET, url = u ''https://reactome.org/download/current/homo_sapiens.sbgn.tar.gz'',
          headers = [], data = None\<rparr>,
         Sent \<lparr>http_method = GET, url = u ''https://reactome.org/download/current/ehld/svgsummary.txt'',
          headers = [], data = None\<rparr>,
         Printed (u ''Connection refused'')], Inl UnboundLocalError)"
    by simp
  with single show ?thesis by simp
qed

text \<open>
  A status other than 200 in the answer to the request of the function itself: each
  of the ten functions prints one line, which ends with the status code in decimal,
  and returns \<open>None\<close>.
\<close>

lemma own_request_status_returns_nothing:
  assumes "status_code response \<noteq> 200"
  shows
  "(http w \<lparr>http_method = GET, url = u ''https://reactome.org/download/current/ehld/svgsummary.txt'',
          headers = [], data = None\<rparr> = Responds response \<longrightarrow>
      ehld_stids w =
        ([Sent \<lparr>http_method = GET, url = u ''https://reactome.org/download/current/ehld/svgsummary.txt'',
          headers = [], data = None\<rparr>,
          Printed (u ''Status code returned a value of '' @ str_int (status_code response))],
         Inr None))
   \<and> (http w \<lparr>http_method = GET, url = u ''https://reactome.org/download/current/homo_sapiens.sbgn.tar.gz'',
          headers = [], data = None\<rparr> = Responds response \<longrightarrow>
      sbgn_stids w =
        ([Sent \<lparr>http_method = GET, url = u ''https://reactome.org/download/current/homo_sapiens.sbgn.tar.gz'',
          headers = [], data = None\<rparr>,
          Printed (u ''Status code returned a value of '' @ str_int (status_code response))],
         Inr None))
   \<and> (http w \<lparr>http_method = GET, url = u ''https://reactome.org/download/current/ReactomePathways.gmt.zip'',
          headers = [], data = None\<rparr> = Responds response \<longrightarrow>
      gene_mappings w =
        ([Sent \<lparr>http_method = GET, url = u ''https://reactome.org/download/current/ReactomePathways.gmt.zip'',
          headers = [], data = None\<rparr>,
          Printed (u ''Status code returned a value of '' @ str_int (status_code response))],
         Inr None))
   \<and> (http w \<lparr>http_method = GET, url = u ''http://cpws.reactome.org/caBigR3WebApp2018/FIService/network/convertPathwayToFIs/'' @ replace st_id pattern [],
          headers = accept_json, data = None\<rparr> = Responds response \<longrightarrow>
      pathway_fi w st_id pattern =
        ([Sent \<lparr>http_method = GET, url = u ''http://cpws.reactome.org/caBigR3WebApp2018/FIService/network/convertPathwayToFIs/'' @ replace st_id pattern [],
          headers = accept_json, data = None\<rparr>,
          Printed (u ''Status code returned a value of '' @ str_int (status_code response))],
         Inr None))
   \<and> (http w \<lparr>http_method = GET, url = u ''http://cpws.reactome.org/caBigR3WebApp2018/FIService/network/convertPathwayToBooleanNetwork/'' @ replace st_id pattern [],
          headers = accept_json, data = None\<rparr> = Responds response \<longrightarrow>
      pathway_boolean_network w st_id pattern =
        ([Sent \<lparr>http_method = GET, url = u ''http://cpws.reactome.org/caBigR3WebApp2018/FIService/network/convertPathwayToBooleanNetwork/'' @ replace st_id pattern [],
          headers = accept_json, data = None\<rparr>,
          Printed (u ''Status code returned a value of '' @ str_int (status_code response))],
         Inr None))
   \<and> (http w \<lparr>http_method = POST, url = u ''http://cpws.reactome.org/caBigR3WebApp2018/FIService/network/convertPathwayToFactorGraph/'' @ replace st_id pattern [],
          headers = accept_json, data = None\<rparr> = Responds response \<longrightarrow>
      pathway_factor_graph w st_id pattern =
        ([Sent \<lparr>http_method = POST, url = u ''http://cpws.reactome.org/caBigR3WebApp2018/FIService/network/convertPathwayToFactorGraph/'' @ replace st_id pattern [],
          headers = accept_json, data = None\<rparr>,
          Printed (u ''Status code returned a value of '' @ str_int (status_code response))],
         Inr None))
   \<and> (http w \<lparr>http_method = GET, url = u ''http://cpws.reactome.org/caBigR3WebApp2018/FIService/drug/listDrugs/'' @ source,
          headers = accept_json, data = None\<rparr> = Responds response \<longrightarrow>
      drug_data_source w source =
        ([Sent \<lparr>http_method = GET, url = u ''http://cpws.reactome.org/caBigR3WebApp2018/FIService/drug/listDrugs/'' @ source,
          headers = accept_json, data = None\<rparr>,
          Printed (u ''Status code returned a value of '' @ str_int (status_code response))],
         Inr None))
   \<and> (http w \<lparr>http_method = POST, url = u ''http://cpws.reactome.org/caBigR3WebApp2018/FIService/drug/queryDrugTargetInteractions/'' @ source,
          headers = accept_json, data = Some ids\<rparr> = Responds response \<longrightarrow>
      drug_target_interactions w ids source =
        ([Sent \<lparr>http_method = POST, url = u ''http://cpws.reactome.org/caBigR3WebApp2018/FIService/drug/queryDrugTargetInteractions/'' @ source,
          headers = accept_json, data = Some ids\<rparr>,
          Printed (u ''Status code returned a value of '' @ str_int (status_code response))],
         Inr None))
   \<and> (http w \<lparr>http_method = GET, url = u ''http://cpws.reactome.org/caBigR3WebApp2018/FIService/drug/queryInteractionsForPEInDiagram/''
                  @ source @ u ''/'' @ pdId @ u ''/'' @ peId,
          headers = accept_json, data = None\<rparr> = Responds response \<longrightarrow>
      drug_target_interaction_pe_in_diagram w source pdId peId =
        ([Sent \<lparr>http_method = GET, url = u ''http://cpws.reactome.org/caBigR3WebApp2018/FIService/drug/queryInteractionsForPEInDiagram/''
                  @ source @ u ''/'' @ pdId @ u ''/'' @ peId,
          headers = accept_json, data = None\<rparr>,
          Printed (u ''Status code returned a value of '' @ str_int (status_code response))],
         Inr None))
   \<and> (http w \<lparr>http_method = GET, url = u ''http://cpws.reactome.org/caBigR3WebApp2018/FIService/drug/queryInteractionsForDiagram/''
                  @ source @ u ''/'' @ pdId,
          headers = accept_json, data = None\<rparr> = Responds response \<longrightarrow>
      drug_target_interaction_diagram w source pdId =
        ([Sent \<lparr>http_method = GET, url = u ''http://cpws.reactome.org/caBigR3WebApp2018/FIService/drug/queryInteractionsForDiagram/''
                  @ source @ u ''/'' @ pdId,
          headers = accept_json, data = None\<rparr>,
          Printed (u ''Status code returned a value of '' @ str_int (status_code response))],
         Inr None))"
  using assms
  by (simp add: ehld_stids_def sbgn_stids_def gene_mappings_def pathway_fi_def pathway_boolean_network_def
      pathway_factor_graph_def drug_data_source_def drug_target_interactions_def
      drug_target_interaction_pe_in_diagram_def drug_target_interaction_diagram_def
      Let_def pathway_identifier try_request_responds json_or_report_def status_message_def)

text \<open>The same where every request is answered with status 404.\<close>

lemma own_request_status_example:
  "ehld_stids (answering 404) =
       ([Sent \<lparr>http_method = GET, url = u ''https://reactome.org/download/current/ehld/svgsummary.txt'',
          headers = [], data = None\<rparr>,
         Printed (u ''Status code returned a value of 404'')], Inr None)
   \<and> sbgn_stids (answering 404) =
       ([Sent \<lparr>http_method = GET, url = u ''https://reactome.org/download/current/homo_sapiens.sbgn.tar.gz'',
          headers = [], data = None\<rparr>,
         Printed (u ''Status code returned a value of 404'')], Inr None)
   \<and> gene_mappings (answering 404) =
       ([Sent \<lparr>http_method = GET, url = u ''https://reactome.org/download/current/ReactomePathways.gmt.zip'',
          headers = [], data = None\<rparr>,
         Printed (u ''Status code returned a value of 404'')], Inr None)
   \<and> pathway_fi (answering 404) (u ''R-HSA-177929'') (u ''R-HSA-'') =
       ([Sent \<lparr>http_method = GET, url = u ''http://cpws.reactome.org/caBigR3WebApp2018/FIService/network/convertPathwayToFIs/'' @ u ''177929'',
          headers = accept_json, data = None\<rparr>,
         Printed (u ''Status code returned a value of 404'')], Inr None)
   \<and> pathway_boolean_network (answering 404) (u ''R-HSA-177929'') (u ''R-HSA-'') =
       ([Sent \<lparr>http_method = GET, url = u ''http://cpws.reactome.org/caBigR3WebApp2018/FIService/network/convertPathwayToBooleanNetwork/'' @ u ''177929'',
          headers = accept_json, data = None\<rparr>,
         Printed (u ''Status code returned a value of 404'')], Inr None)
   \<and> pathway_factor_graph (answering 404) (u ''R-HSA-177929'') (u ''R-HSA-'') =
       ([Sent \<lparr>http_method = POST, url = u ''http://cpws.reactome.org/caBigR3WebApp2018/FIService/network/convertPathwayToFactorGraph/'' @ u ''177929'',
          headers = accept_json, data = None\<rparr>,
         Printed (u ''Status code returned a value of 404'')], Inr None)
   \<and> drug_data_source (answering 404) (u ''drugcentral'') =
       ([Sent \<lparr>http_method = GET, url = u ''http://cpws.reactome.org/caBigR3WebApp2018/FIService/drug/listDrugs/'' @ (u ''drugcentral''),
          headers = accept_json, data = None\<rparr>,
         Printed (u ''Status code returned a value of 404'')], Inr None)
   \<and> drug_target_interactions (answering 404) (u ''EGFR'') (u ''drugcentral'') =
       ([Sent \<lparr>http_method = POST, url = u ''http://cpws.reactome.org/caBigR3WebApp2018/FIService/drug/queryDrugTargetInteractions/'' @ (u ''drugcentral''),
          headers = accept_json, data = Some (u ''EGFR'')\<rparr>,
         Printed (u ''Status code returned a value of 404'')], Inr None)
   \<and> drug_target_interaction_pe_in_diagram (answering 404) (u ''drugcentral'') (u ''507988'') (u ''1220578'') =
       ([Sent \<lparr>http_method = GET, url = u ''http://cpws.reactome.org/caBigR3WebApp2018/FIService/drug/queryInteractionsForPEInDiagram/''
                  @ (u ''drugcentral'') @ u ''/'' @ (u ''507988'') @ u ''/'' @ (u ''1220578''),
          headers = accept_json, data = None\<rparr>,
         Printed (u ''Status code returned a value of 404'')], Inr None)
   \<and> drug_target_interaction_diagram (answering 404) (u ''drugcentral'') (u ''507988'') =
       ([Sent \<lparr>http_method = GET, url = u ''http://cpws.reactome.org/caBigR3WebApp2018/FIService/drug/queryInteractionsForDiagram/''
                  @ (u ''drugcentral'') @ u ''/'' @ (u ''507988''),
          headers = accept_json, data = None\<rparr>,
         Printed (u ''Status code returned a value of 404'')], Inr None)"
proof -
  have answers: "http (answering 404) rq = Responds (answer 404 [])" for rq
    by (simp add: answering_def example_world_def)
  have status: "status_code (answer 404 []) \<noteq> (200 :: int)"
    by (simp add: answer_def)
  have message: "u ''Status code returned a value of '' @ str_int (status_code (answer 404 []))
      = u ''Status code returned a value of 404''"
    by (simp add: answer_def str_int_def digits.simps u_def)
  have rep: "replace (u ''R-HSA-177929'') (u ''R-HSA-'') [] = u ''177929''"
    by (simp add: u_def replace.simps)
  from own_request_status_returns_nothing [OF status, of "answering 404" "u ''R-HSA-177929''" "u ''R-HSA-''" "u ''drugcentral''" "u ''EGFR''" "u ''507988''" "u ''1220578''"]
    answers rep message
  show ?thesis by simp
qed

text \<open>
  Claim C7 says that a response with a status outside 200..299 makes every function
  print the status and return \<open>None\<close>, raising nothing. \<open>sbgn_stids\<close> breaks it: when
  its own request is answered with status 200 and the archive opens, and the request of
  the nested \<open>ehld_stids\<close> call is answered with a status outside 200..299, the nested
  call prints the status and returns \<open>None\<close>, and then \<^verbatim>\<open>set(ehlds)\<close> raises
  \<open>TypeError\<close>.
\<close>

theorem sbgn_stids_summary_status_raises:
  assumes "http w \<lparr>http_method = GET, url = u ''https://reactome.org/download/current/homo_sapiens.sbgn.tar.gz'',
          headers = [], data = None\<rparr> = Responds response"
    and "status_code response = 200"
    and "tar_getnames w (content response) = Inr file_names"
    and "http w \<lparr>http_method = GET, url = u ''https://reactome.org/download/current/ehld/svgsummary.txt'',
          headers = [], data = None\<rparr> = Responds summary"
    and "\<not> (200 \<le> status_code summary \<and> status_code summary < 300)"
  shows "sbgn_stids w =
      ([Sent \<lparr>http_method = GET, url = u ''https://reactome.org/download/current/homo_sapiens.sbgn.tar.gz'',
          headers = [], data = None\<rparr>,
        Sent \<lparr>http_method = GET, url = u ''https://reactome.org/download/current/ehld/svgsummary.txt'',
          headers = [], data = None\<rparr>,
        Printed (u ''Status code returned a value of '' @ str_int (status_code summary))],
       Inl TypeError)"
proof -
  from assms(5) have "status_code summary \<noteq> 200" by auto
  with assms(4) have "ehld_stids w =
      ([Sent \<lparr>http_method = GET, url = u ''https://reactome.org/download/current/ehld/svgsummary.txt'',
          headers = [], data = None\<rparr>,
        Printed (u ''Status code returned a value of '' @ str_int (status_code summary))],
       Inr None)"
    by (simp add: ehld_stids_def try_request_responds status_message_def)
  with assms(1-3) show ?thesis
    by (simp add: sbgn_stids_def try_request_responds)
qed

theorem sbgn_stids_summary_status_raises_witness:
  "sbgn_stids summary_missing =
      ([Sent \<lparr>http_method = GET, url = u ''https://reactome.org/download/current/homo_sapiens.sbgn.tar.gz'',
          headers = [], data = None\<rparr>,
        Sent \<lparr>http_method = GET, url = u ''https://reactome.org/download/current/ehld/svgsummary.txt'',
          headers = [], data = None\<rparr>,
        Printed (u ''Status code returned a value of 404'')],
       Inl TypeError)"
proof -
  have archive: "http summary_missing \<lparr>http_method = GET, url = u ''https://reactome.org/download/current/homo_sapiens.sbgn.tar.gz'',
          headers = [], data = None\<rparr> = Responds (answer 200 [])"
    and status: "status_code (answer 200 []) = (200 :: int)"
    and names: "tar_getnames summary_missing (content (answer 200 [])) = Inr [u ''R-HSA-1.sbgn'']"
    and summary: "http summary_missing \<lparr>http_method = GET, url = u ''https://reactome.org/download/current/ehld/svgsummary.txt'',
          headers = [], data = None\<rparr> = Responds (answer 404 [])"
    and missing: "\<not> (200 \<le> status_code (answer 404 []) \<and> status_code (answer 404 []) < (300 :: int))"
    by (simp_all add: summary_missing_def example_world_def answer_def u_eq_iff)
  have message: "u ''Status code returned a value of '' @ str_int (status_code (answer 404 []))
      = u ''Status code returned a value of 404''"
    by (simp add: answer_def str_int_def digits.simps u_def)
  from sbgn_stids_summary_status_raises [OF archive status names summary missing] message
  show ?thesis by simp
qed

section \<open>The listing functions\<close>

lemma ehld_stids_returns:
  "ehld_stids w = (evs, Inr (Some st_ids)) \<longleftrightarrow>
   (\<exists>response.
      http w \<lparr>http_method = GET,
        url = u ''https://reactome.org/download/current/ehld/svgsummary.txt'',
        headers = [], data = None\<rparr> = Responds response
      \<and> status_code response = 200
      \<and> evs = [Sent \<lparr>http_method = GET,
        url = u ''https://reactome.org/download/current/ehld/svgsummary.txt'',
        headers = [], data = None\<rparr>]
      \<and> st_ids = filter (\<lambda>stId. contains (u ''R-'') stId) (splitlines (response_text response)))"
  by (auto simp: ehld_stids_def try_request_def Let_def split: http_outcome.splits if_splits)

lemma sbgn_stids_returns:
  "sbgn_stids w = (evs, Inr (Some sbgn_only)) \<longleftrightarrow>
   (\<exists>response file_names evs' ehlds.
      http w \<lparr>http_method = GET,
        url = u ''https://reactome.org/download/current/homo_sapiens.sbgn.tar.gz'',
        headers = [], data = None\<rparr> = Responds response
      \<and> status_code response = 200
      \<and> tar_getnames w (content response) = Inr file_names
      \<and> ehld_stids w = (evs', Inr (Some ehlds))
      \<and> evs = Sent \<lparr>http_method = GET,
        url = u ''https://reactome.org/download/current/homo_sapiens.sbgn.tar.gz'',
        headers = [], data = None\<rparr> # evs'
      \<and> sbgn_only =
          set_difference_list (map (\<lambda>f. replace f (u ''.sbgn'') []) file_names) ehlds)"
  by (auto simp: sbgn_stids_def try_request_def Let_def
      split: http_outcome.splits if_splits sum.splits prod.splits option.splits)

lemma set_set_difference_list: "set (set_difference_list xs ys) = set xs - set ys"
  by (auto simp: set_difference_list_def)

lemma distinct_set_difference_list: "distinct (set_difference_list xs ys)"
  by (simp add: set_difference_list_def)

lemma u_R: "u ''R-'' = [82, 45]" by (simp add: u_def)

lemma u_sbgn: "u ''.sbgn'' = [46, 115, 98, 103, 110]" by (simp add: u_def)

lemma contains_R_replace_sbgn:
  "contains (u ''R-'') f \<Longrightarrow> contains (u ''R-'') (replace f (u ''.sbgn'') [])"
  by (rule contains_replace_disjoint) (simp_all add: u_R u_sbgn)

lemma ehld_stids_diagrams:
  "ehld_stids diagrams =
     ([Sent \<lparr>http_method = GET,
        url = u ''https://reactome.org/download/current/ehld/svgsummary.txt'',
        headers = [], data = None\<rparr>], Inr (Some [u ''R-HSA-1'']))"
  by (simp add: ehld_stids_def try_request_def diagrams_def example_world_def answer_def
      splitlines_def is_linebreak_def u_def)

lemma sbgn_stids_diagrams:
  "sbgn_stids diagrams =
     ([Sent \<lparr>http_method = GET,
        url = u ''https://reactome.org/download/current/homo_sapiens.sbgn.tar.gz'',
        headers = [], data = None\<rparr>,
       Sent \<lparr>http_method = GET,
        url = u ''https://reactome.org/download/current/ehld/svgsummary.txt'',
        headers = [], data = None\<rparr>], Inr (Some [u ''R-HSA-2'', u ''README'']))"
proof -
  have "map (\<lambda>f. replace f (u ''.sbgn'') []) [u ''R-HSA-1.sbgn'', u ''R-HSA-2.sbgn'', u ''README.sbgn'']
     = [u ''R-HSA-1'', u ''R-HSA-2'', u ''README'']"
    by (simp add: u_def replace.simps)
  moreover have "set_difference_list [u ''R-HSA-1'', u ''R-HSA-2'', u ''README''] [u ''R-HSA-1'']
     = [u ''R-HSA-2'', u ''README'']"
    by (simp add: set_difference_list_def u_eq_iff)
  moreover have "tar_getnames diagrams b = Inr [u ''R-HSA-1.sbgn'', u ''R-HSA-2.sbgn'', u ''README.sbgn'']"
    and "http diagrams rq = Responds (answer 200 (u ''Title'' @ [10] @ u ''R-HSA-1'' @ [10]))" for b rq
    by (simp_all add: diagrams_def example_world_def)
  ultimately show ?thesis
    by (simp add: sbgn_stids_def try_request_def ehld_stids_diagrams answer_def)
qed

text \<open>
  Claim C2, as the code has it. Every string returned by \<open>ehld_stids\<close> contains \<open>R-\<close>:
  the function keeps only such lines. \<open>sbgn_stids\<close> does not filter: every string it
  returns is the name of a member of the archive with \<open>.sbgn\<close> removed, and contains
  \<open>R-\<close> if that member name does.
\<close>

theorem listing_identifiers:
  "(ehld_stids w = (evs, Inr (Some st_ids)) \<longrightarrow> (\<forall>s \<in> set st_ids. contains (u ''R-'') s))
   \<and> (sbgn_stids w = (evs', Inr (Some sbgn_only)) \<longrightarrow>
        (\<exists>response file_names.
           http w \<lparr>http_method = GET,
             url = u ''https://reactome.org/download/current/homo_sapiens.sbgn.tar.gz'',
             headers = [], data = None\<rparr> = Responds response
           \<and> tar_getnames w (content response) = Inr file_names
           \<and> (\<forall>s \<in> set sbgn_only. \<exists>f \<in> set file_names.
                 s = replace f (u ''.sbgn'') []
                 \<and> (contains (u ''R-'') f \<longrightarrow> contains (u ''R-'') s))))"
proof (intro conjI impI)
  assume "ehld_stids w = (evs, Inr (Some st_ids))"
  then show "\<forall>s \<in> set st_ids. contains (u ''R-'') s"
    unfolding ehld_stids_returns by auto
next
  assume "sbgn_stids w = (evs', Inr (Some sbgn_only))"
  then obtain response file_names ehlds where
    r: "http w \<lparr>http_method = GET,
             url = u ''https://reactome.org/download/current/homo_sapiens.sbgn.tar.gz'',
             headers = [], data = None\<rparr> = Responds response"
    and t: "tar_getnames w (content response) = Inr file_names"
    and s: "sbgn_only = set_difference_list (map (\<lambda>f. replace f (u ''.sbgn'') []) file_names) ehlds"
    unfolding sbgn_stids_returns by blast
  have "\<exists>f \<in> set file_names. s = replace f (u ''.sbgn'') []
                 \<and> (contains (u ''R-'') f \<longrightarrow> contains (u ''R-'') s)"
    if "s \<in> set sbgn_only" for s
  proof -
    from that s obtain f where "f \<in> set file_names" "s = replace f (u ''.sbgn'') []"
      by (auto simp: set_set_difference_list)
    then show ?thesis by (auto intro: contains_R_replace_sbgn)
  qed
  with r t show "\<exists>response file_names.
           http w \<lparr>http_method = GET,
             url = u ''https://reactome.org/download/current/homo_sapiens.sbgn.tar.gz'',
             headers = [], data = None\<rparr> = Responds response
           \<and> tar_getnames w (content response) = Inr file_names
           \<and> (\<forall>s \<in> set sbgn_only. \<exists>f \<in> set file_names.
                 s = replace f (u ''.sbgn'') []
                 \<and> (contains (u ''R-'') f \<longrightarrow> contains (u ''R-'') s))"
    by blast
qed

text \<open>
  The theorem on the example with the summary \<open>Title, R-HSA-1\<close> and the archive members
  \<open>R-HSA-1.sbgn\<close>, \<open>R-HSA-2.sbgn\<close> and \<open>README.sbgn\<close>.
\<close>

theorem listing_identifiers_witness:
  "snd (ehld_stids diagrams) = Inr (Some [u ''R-HSA-1''])
   \<and> contains (u ''R-'') (u ''R-HSA-1'')
   \<and> snd (sbgn_stids diagrams) = Inr (Some [u ''R-HSA-2'', u ''README''])
   \<and> replace (u ''R-HSA-2.sbgn'') (u ''.sbgn'') [] = u ''R-HSA-2''
   \<and> contains (u ''R-'') (u ''R-HSA-2.sbgn'')
   \<and> contains (u ''R-'') (u ''R-HSA-2'')"
proof -
  have "replace (u ''R-HSA-2.sbgn'') (u ''.sbgn'') [] = u ''R-HSA-2''"
    by (simp add: u_def replace.simps)
  moreover have "contains (u ''R-'') (u ''R-HSA-2.sbgn'')" by (simp add: u_def)
  moreover have "contains (u ''R-'') (u ''R-HSA-2'')" by (simp add: u_def)
  ultimately show ?thesis
    using listing_identifiers [of diagrams "fst (ehld_stids diagrams)" "[u ''R-HSA-1'']"
        "fst (sbgn_stids diagrams)" "[u ''R-HSA-2'', u ''README'']"]
    by (simp add: ehld_stids_diagrams sbgn_stids_diagrams)
qed

text \<open>
  Claim C2 as stated fails for \<open>sbgn_stids\<close>: on the same example the call succeeds and
  returns \<open>R-HSA-2\<close> and \<open>README\<close> (listed here in the order of the archive), and
  \<open>README\<close> does not contain \<open>R-\<close>.
\<close>

theorem sbgn_stids_unfiltered_counterexample:
  "snd (sbgn_stids diagrams) = Inr (Some [u ''R-HSA-2'', u ''README''])
   \<and> \<not> contains (u ''R-'') (u ''README'')"
  by (simp add: sbgn_stids_diagrams) (simp add: u_def)

text \<open>
  Claim C4: when \<open>sbgn_stids\<close> and \<open>ehld_stids\<close> both return a list, against the same
  remote side, no identifier is in both lists.
\<close>

theorem sbgn_stids_disjoint_from_ehld_stids:
  assumes "sbgn_stids w = (evs, Inr (Some sbgn_only))"
    and "ehld_stids w = (evs', Inr (Some ehlds))"
  shows "set sbgn_only \<inter> set ehlds = {}"
proof -
  from assms(1) obtain file_names evs'' ehlds' where
    e: "ehld_stids w = (evs'', Inr (Some ehlds'))" and
    s: "sbgn_only = set_difference_list (map (\<lambda>f. replace f (u ''.sbgn'') []) file_names) ehlds'"
    unfolding sbgn_stids_returns by blast
  from e assms(2) have "ehlds' = ehlds" by simp
  with s show ?thesis by (auto simp: set_set_difference_list)
qed

theorem sbgn_stids_disjoint_from_ehld_stids_witness:
  "snd (sbgn_stids diagrams) = Inr (Some [u ''R-HSA-2'', u ''README''])
   \<and> snd (ehld_stids diagrams) = Inr (Some [u ''R-HSA-1''])
   \<and> set [u ''R-HSA-2'', u ''README''] \<inter> set [u ''R-HSA-1''] = {}"
  using sbgn_stids_disjoint_from_ehld_stids [OF sbgn_stids_diagrams ehld_stids_diagrams]
  by (simp add: sbgn_stids_diagrams ehld_stids_diagrams)

text \<open>
  Claim C10: the list that \<open>sbgn_stids\<close> returns has no duplicates. The list comes from
  a set, whose order Python leaves open: the same holds for every reordering of it.
\<close>

theorem sbgn_stids_distinct:
  assumes "sbgn_stids w = (evs, Inr (Some sbgn_only))"
  shows "distinct sbgn_only \<and> (\<forall>r. mset r = mset sbgn_only \<longrightarrow> distinct r)"
proof -
  from assms have d: "distinct sbgn_only"
    unfolding sbgn_stids_returns by (auto simp: distinct_set_difference_list)
  moreover have "distinct r" if "mset r = mset sbgn_only" for r
    using that d by (metis mset_eq_imp_distinct_iff)
  ultimately show ?thesis by blast
qed

theorem sbgn_stids_distinct_witness:
  "snd (sbgn_stids diagrams) = Inr (Some [u ''R-HSA-2'', u ''README''])
   \<and> distinct [u ''R-HSA-2'', u ''README'']
   \<and> mset [u ''README'', u ''R-HSA-2''] = mset [u ''R-HSA-2'', u ''README'']
   \<and> distinct [u ''README'', u ''R-HSA-2'']"
proof -
  have m: "mset [u ''README'', u ''R-HSA-2''] = mset [u ''R-HSA-2'', u ''README'']"
    by (simp add: add.commute)
  from sbgn_stids_distinct [OF sbgn_stids_diagrams] m
  have "distinct [u ''R-HSA-2'', u ''README'']" "distinct [u ''README'', u ''R-HSA-2'']"
    by blast+
  with m show ?thesis by (simp add: sbgn_stids_diagrams)
qed

section \<open>The gene mappings\<close>

lemma decode_all_imp_list_all2:
  "decode_all w bs = Inr cs \<Longrightarrow> list_all2 (\<lambda>b c. decode_utf8 w b = Inr c) bs cs"
  by (induction bs arbitrary: cs) (auto split: sum.splits)

lemma list_all2_imp_decode_all:
  "list_all2 (\<lambda>b c. decode_utf8 w b = Inr c) bs cs \<Longrightarrow> decode_all w bs = Inr cs"
  by (induction bs cs rule: list_all2_induct) auto

lemma decode_all_list_all2:
  "decode_all w bs = Inr cs \<longleftrightarrow> list_all2 (\<lambda>b c. decode_utf8 w b = Inr c) bs cs"
  by (blast intro: decode_all_imp_list_all2 list_all2_imp_decode_all)

lemma split_char_no_sep: "sep \<notin> set s \<Longrightarrow> split_char sep cur s = [cur @ s]"
  by (induction s arbitrary: cur) auto

lemma split_no_tab: "9 \<notin> set c \<Longrightarrow> split c 9 = [c]"
  by (simp add: split_def split_char_no_sep)

lemma gene_mappings_loop_Inr:
  "gene_mappings_loop gm relations = Inr out \<longleftrightarrow>
   (\<forall>e \<in> set gm. 2 \<le> length e)
   \<and> out = relations @ map (\<lambda>e. \<lparr>name = strip (e ! 0), stId = strip (e ! 1),
                                    genes = map strip (drop 2 e)\<rparr>) gm"
proof (induction gm arbitrary: relations)
  case Nil
  then show ?case by auto
next
  case (Cons e gm)
  show ?case
  proof (cases e)
    case Nil
    then show ?thesis by simp
  next
    case c1: (Cons a e')
    show ?thesis
    proof (cases e')
      case Nil
      with c1 show ?thesis by simp
    next
      case c2: (Cons b e'')
      with c1 show ?thesis by (simp add: Cons.IH)
    qed
  qed
qed

lemma gene_mappings_loop_Inl:
  "gene_mappings_loop gm relations = Inl x \<longleftrightarrow> x = IndexError \<and> (\<exists>e \<in> set gm. length e < 2)"
proof (induction gm arbitrary: relations)
  case Nil
  then show ?case by auto
next
  case (Cons e gm)
  show ?case
  proof (cases e)
    case Nil
    then show ?thesis by auto
  next
    case c1: (Cons a e')
    show ?thesis
    proof (cases e')
      case Nil
      with c1 show ?thesis by auto
    next
      case c2: (Cons b e'')
      with c1 show ?thesis by (simp add: Cons.IH)
    qed
  qed
qed

lemma record_of_line_eq:
  assumes "2 \<le> length (split c 9)"
  shows "record_of_line c = \<lparr>name = strip (split c 9 ! 0), stId = strip (split c 9 ! 1),
      genes = map strip (drop 2 (split c 9))\<rparr>"
proof -
  from assms have "0 < length (split c 9)" "1 < length (split c 9)" by linarith+
  then have "map strip (split c 9) ! 0 = strip (split c 9 ! 0)"
    "map strip (split c 9) ! 1 = strip (split c 9 ! 1)"
    by (simp_all only: nth_map)
  then show ?thesis by (simp add: record_of_line_def Let_def drop_map)
qed

lemma gene_mappings_returns:
  "gene_mappings w = (evs, Inr (Some relations)) \<longleftrightarrow>
     (\<exists>response first others cs.
        http w \<lparr>http_method = GET,
          url = u ''https://reactome.org/download/current/ReactomePathways.gmt.zip'',
          headers = [], data = None\<rparr> = Responds response
        \<and> status_code response = 200
        \<and> zip_readlines w (content response) = Inr (first # others)
        \<and> list_all2 (\<lambda>b c. decode_utf8 w b = Inr c) first cs
        \<and> (\<forall>c \<in> set cs. 2 \<le> length (split c 9))
        \<and> evs = [Sent \<lparr>http_method = GET,
          url = u ''https://reactome.org/download/current/ReactomePathways.gmt.zip'',
          headers = [], data = None\<rparr>]
        \<and> relations = map record_of_line cs)"
  (is "?L \<longleftrightarrow> ?R")
proof
  let ?rq = "\<lparr>http_method = GET,
          url = u ''https://reactome.org/download/current/ReactomePathways.gmt.zip'',
          headers = [], data = None\<rparr>"
  assume L: ?L
  then obtain response where r: "http w ?rq = Responds response" and e: "evs = [Sent ?rq]"
    by (auto simp: gene_mappings_def try_request_def Let_def split: http_outcome.splits if_splits sum.splits)
  with L have s: "status_code response = 200"
    by (auto simp: gene_mappings_def try_request_def Let_def split: if_splits)
  with L r obtain gm where g: "read_ziplines w response = Inr gm"
    and l: "gene_mappings_loop gm [] = Inr relations"
    by (auto simp: gene_mappings_def try_request_def Let_def split: sum.splits)
  from g obtain first others cs where z: "zip_readlines w (content response) = Inr (first # others)"
    and d: "decode_all w first = Inr cs" and gm: "gm = map (\<lambda>c. split c 9) cs"
    by (auto simp: read_ziplines_def yield_zip_def split: sum.splits list.splits)
  from l gm have a: "\<forall>c \<in> set cs. 2 \<le> length (split c 9)"
    by (auto simp: gene_mappings_loop_Inr)
  with l gm have "relations = map record_of_line cs"
    by (auto simp: gene_mappings_loop_Inr record_of_line_eq)
  with r s z d a e show ?R by (auto simp: decode_all_list_all2)
next
  assume ?R
  then obtain response first others cs where
    r: "http w \<lparr>http_method = GET,
          url = u ''https://reactome.org/download/current/ReactomePathways.gmt.zip'',
          headers = [], data = None\<rparr> = Responds response"
    and s: "status_code response = 200"
    and z: "zip_readlines w (content response) = Inr (first # others)"
    and d: "decode_all w first = Inr cs"
    and a: "\<forall>c \<in> set cs. 2 \<le> length (split c 9)"
    and e: "evs = [Sent \<lparr>http_method = GET,
          url = u ''https://reactome.org/download/current/ReactomePathways.gmt.zip'',
          headers = [], data = None\<rparr>]"
    and rel: "relations = map record_of_line cs"
    by (auto simp: decode_all_list_all2)
  from z d have g: "read_ziplines w response = Inr (map (\<lambda>c. split c 9) cs)"
    by (simp add: read_ziplines_def yield_zip_def)
  from a rel have "gene_mappings_loop (map (\<lambda>c. split c 9) cs) [] = Inr relations"
    by (auto simp: gene_mappings_loop_Inr record_of_line_eq)
  with r s g e show ?L
    by (simp add: gene_mappings_def try_request_def)
qed

lemma gene_mappings_raises_IndexError:
  assumes "http w \<lparr>http_method = GET,
          url = u ''https://reactome.org/download/current/ReactomePathways.gmt.zip'',
          headers = [], data = None\<rparr> = Responds response"
    and "status_code response = 200"
    and "zip_readlines w (content response) = Inr (first # others)"
    and "list_all2 (\<lambda>b c. decode_utf8 w b = Inr c) first cs"
    and "c \<in> set cs" "length (split c 9) < 2"
  shows "gene_mappings w = ([Sent \<lparr>http_method = GET,
          url = u ''https://reactome.org/download/current/ReactomePathways.gmt.zip'',
          headers = [], data = None\<rparr>], Inl IndexError)"
proof -
  from assms(4) have "decode_all w first = Inr cs" by (simp add: decode_all_list_all2)
  with assms(3) have g: "read_ziplines w response = Inr (map (\<lambda>c. split c 9) cs)"
    by (simp add: read_ziplines_def yield_zip_def)
  from assms(5,6) have "gene_mappings_loop (map (\<lambda>c. split c 9) cs) [] = Inl IndexError"
    by (auto simp: gene_mappings_loop_Inl)
  with assms(1,2) g show ?thesis
    by (simp add: gene_mappings_def try_request_def)
qed

lemma last_suffix: "suffix xs ys \<Longrightarrow> xs \<noteq> [] \<Longrightarrow> last xs = last ys"
  by (auto simp: suffix_def)

lemma trimmed_strip: "trimmed (strip s)"
proof -
  define t where "t = dropWhile isspace s"
  define r where "r = dropWhile isspace (rev t)"
  have s: "strip s = rev r" by (simp add: strip_def t_def r_def)
  show ?thesis
  proof (cases "r = []")
    case True
    with s show ?thesis by (simp add: trimmed_def)
  next
    case False
    then have hr: "\<not> isspace (hd r)" unfolding r_def by (rule hd_dropWhile)
    have "suffix r (rev t)" unfolding r_def by (rule suffix_dropWhile)
    with False have lr: "last r = last (rev t)" by (rule last_suffix[rotated -1]) 
    from False have "t \<noteq> []" by (auto simp: r_def)
    then have "\<not> isspace (hd t)" unfolding t_def by (rule hd_dropWhile)
    moreover from \<open>t \<noteq> []\<close> have "last (rev t) = hd t" by (simp add: last_rev)
    ultimately have "\<not> isspace (last r)" using lr by simp
    with hr False s show ?thesis by (simp add: trimmed_def hd_rev last_rev)
  qed
qed

lemmas run_gene_mappings =
  gene_mappings_def try_request_def read_ziplines_def yield_zip_def example_world_def answer_def
  ascii_decode_def split_def strip_def isspace_def u_def

lemma gene_mappings_gene_sets:
  "gene_mappings gene_sets =
     ([Sent \<lparr>http_method = GET,
          url = u ''https://reactome.org/download/current/ReactomePathways.gmt.zip'',
          headers = [], data = None\<rparr>],
      Inr (Some [\<lparr>name = u ''Apoptosis'', stId = u ''R-HSA-109581'', genes = [u ''BAX'', u ''TP53'']\<rparr>,
                 \<lparr>name = u ''Empty'', stId = u ''R-HSA-1'', genes = []\<rparr>]))"
  by (simp add: run_gene_mappings gene_sets_def)

text \<open>
  Claim C5: a call of \<open>gene_mappings\<close> returns a list exactly when its request is
  answered with status 200, the archive has a first member, every line of that member
  decodes, and every decoded line has at least two tab-separated fields; the list then
  holds one record per line of the first member, in the order of the lines, each record
  being \<open>record_of_line\<close> of its line: \<open>name\<close> is field 0, \<open>stId\<close> field 1 and \<open>genes\<close>
  the remaining fields, every field stripped. A line of exactly two fields gives a
  record with no genes.
\<close>

theorem gene_mappings_records:
  "(gene_mappings w = (evs, Inr (Some relations)) \<longleftrightarrow>
     (\<exists>response first others cs.
        http w \<lparr>http_method = GET,
          url = u ''https://reactome.org/download/current/ReactomePathways.gmt.zip'',
          headers = [], data = None\<rparr> = Responds response
        \<and> status_code response = 200
        \<and> zip_readlines w (content response) = Inr (first # others)
        \<and> list_all2 (\<lambda>b c. decode_utf8 w b = Inr c) first cs
        \<and> (\<forall>c \<in> set cs. 2 \<le> length (split c 9))
        \<and> evs = [Sent \<lparr>http_method = GET,
          url = u ''https://reactome.org/download/current/ReactomePathways.gmt.zip'',
          headers = [], data = None\<rparr>]
        \<and> relations = map record_of_line cs))
   \<and> (length (split c 9) = 2 \<longrightarrow> genes (record_of_line c) = [])"
  by (simp add: gene_mappings_returns) (simp add: record_of_line_def)

text \<open>
  The theorem on a file of two lines, the second of which has two fields only.
\<close>

theorem gene_mappings_records_witness:
  "gene_mappings gene_sets =
     ([Sent \<lparr>http_method = GET,
          url = u ''https://reactome.org/download/current/ReactomePathways.gmt.zip'',
          headers = [], data = None\<rparr>],
      Inr (Some [\<lparr>name = u ''Apoptosis'', stId = u ''R-HSA-109581'', genes = [u ''BAX'', u ''TP53'']\<rparr>,
                 \<lparr>name = u ''Empty'', stId = u ''R-HSA-1'', genes = []\<rparr>]))
   \<and> length (split (u ''Empty'' @ [9] @ u ''R-HSA-1'' @ [10]) 9) = 2
   \<and> genes (record_of_line (u ''Empty'' @ [9] @ u ''R-HSA-1'' @ [10])) = []"
proof -
  let ?first = "[''Apoptosis'' @ [CHR 0x09] @ ''R-HSA-109581'' @ [CHR 0x09] @ ''BAX'' @ [CHR 0x09]
           @ ''TP53'' @ [CHR 0x0A], ''Empty'' @ [CHR 0x09] @ ''R-HSA-1'' @ [CHR 0x0A]]"
  let ?cs = "[u ''Apoptosis'' @ [9] @ u ''R-HSA-109581'' @ [9] @ u ''BAX'' @ [9] @ u ''TP53'' @ [10], u ''Empty'' @ [9] @ u ''R-HSA-1'' @ [10]]"
  have "http gene_sets \<lparr>http_method = GET,
          url = u ''https://reactome.org/download/current/ReactomePathways.gmt.zip'',
          headers = [], data = None\<rparr> = Responds (answer 200 [])"
    and "status_code (answer 200 []) = 200"
    and "zip_readlines gene_sets (content (answer 200 [])) = Inr (?first # [])"
    and "list_all2 (\<lambda>b c. decode_utf8 gene_sets b = Inr c) ?first ?cs"
    and "\<forall>c \<in> set ?cs. 2 \<le> length (split c 9)"
    by (simp_all add: run_gene_mappings gene_sets_def)
  then have "\<exists>response first others cs.
        http gene_sets \<lparr>http_method = GET,
          url = u ''https://reactome.org/download/current/ReactomePathways.gmt.zip'',
          headers = [], data = None\<rparr> = Responds response
        \<and> status_code response = 200
        \<and> zip_readlines gene_sets (content response) = Inr (first # others)
        \<and> list_all2 (\<lambda>b c. decode_utf8 gene_sets b = Inr c) first cs
        \<and> (\<forall>c \<in> set cs. 2 \<le> length (split c 9))
        \<and> [Sent \<lparr>http_method = GET,
          url = u ''https://reactome.org/download/current/ReactomePathways.gmt.zip'',
          headers = [], data = None\<rparr>] = [Sent \<lparr>http_method = GET,
          url = u ''https://reactome.org/download/current/ReactomePathways.gmt.zip'',
          headers = [], data = None\<rparr>]
        \<and> map record_of_line ?cs = map record_of_line cs"
    by blast
  with gene_mappings_records [of gene_sets "[Sent \<lparr>http_method = GET,
          url = u ''https://reactome.org/download/current/ReactomePathways.gmt.zip'',
          headers = [], data = None\<rparr>]" "map record_of_line ?cs" "u ''Empty'' @ [9] @ u ''R-HSA-1'' @ [10]"]
  have "gene_mappings gene_sets = ([Sent \<lparr>http_method = GET,
          url = u ''https://reactome.org/download/current/ReactomePathways.gmt.zip'',
          headers = [], data = None\<rparr>], Inr (Some (map record_of_line ?cs)))"
    and "length (split (u ''Empty'' @ [9] @ u ''R-HSA-1'' @ [10]) 9) = 2 \<longrightarrow> genes (record_of_line (u ''Empty'' @ [9] @ u ''R-HSA-1'' @ [10])) = []"
    by blast+
  moreover have "map record_of_line ?cs =
     [\<lparr>name = u ''Apoptosis'', stId = u ''R-HSA-109581'', genes = [u ''BAX'', u ''TP53'']\<rparr>,
      \<lparr>name = u ''Empty'', stId = u ''R-HSA-1'', genes = []\<rparr>]"
    by (simp add: record_of_line_def run_gene_mappings)
  moreover have "length (split (u ''Empty'' @ [9] @ u ''R-HSA-1'' @ [10]) 9) = 2" by (simp add: run_gene_mappings)
  ultimately show ?thesis by simp
qed

text \<open>
  Claim C9: when the request is answered with status 200, the archive has a first
  member and its lines decode, \<open>gene_mappings\<close> returns a list if and only if every
  line has at least two tab-separated fields; when some line has no tab, the call ends
  with \<open>IndexError\<close>.
\<close>

theorem gene_mappings_needs_two_fields:
  assumes "http w \<lparr>http_method = GET,
          url = u ''https://reactome.org/download/current/ReactomePathways.gmt.zip'',
          headers = [], data = None\<rparr> = Responds response"
    and "status_code response = 200"
    and "zip_readlines w (content response) = Inr (first # others)"
    and "list_all2 (\<lambda>b c. decode_utf8 w b = Inr c) first cs"
  shows "((\<exists>evs relations. gene_mappings w = (evs, Inr (Some relations))) \<longleftrightarrow>
            (\<forall>c \<in> set cs. 2 \<le> length (split c 9)))
    \<and> ((\<exists>c \<in> set cs. 9 \<notin> set c) \<longrightarrow> gene_mappings w = ([Sent \<lparr>http_method = GET,
          url = u ''https://reactome.org/download/current/ReactomePathways.gmt.zip'',
          headers = [], data = None\<rparr>], Inl IndexError))"
proof (intro conjI iffI impI)
  assume "\<exists>evs relations. gene_mappings w = (evs, Inr (Some relations))"
  then obtain response' first' others' cs' where
    "http w \<lparr>http_method = GET,
          url = u ''https://reactome.org/download/current/ReactomePathways.gmt.zip'',
          headers = [], data = None\<rparr> = Responds response'"
    "zip_readlines w (content response') = Inr (first' # others')"
    "list_all2 (\<lambda>b c. decode_utf8 w b = Inr c) first' cs'"
    "\<forall>c \<in> set cs'. 2 \<le> length (split c 9)"
    unfolding gene_mappings_returns by blast
  moreover from this assms have "response' = response" "first' = first" by simp_all
  moreover from calculation assms(4) have "cs' = cs"
    by (simp add: decode_all_list_all2 [symmetric])
  ultimately show "\<forall>c \<in> set cs. 2 \<le> length (split c 9)" by simp
next
  assume "\<forall>c \<in> set cs. 2 \<le> length (split c 9)"
  with assms have "gene_mappings w = ([Sent \<lparr>http_method = GET,
          url = u ''https://reactome.org/download/current/ReactomePathways.gmt.zip'',
          headers = [], data = None\<rparr>], Inr (Some (map record_of_line cs)))"
    unfolding gene_mappings_returns by blast
  then show "\<exists>evs relations. gene_mappings w = (evs, Inr (Some relations))" by blast
next
  assume "\<exists>c \<in> set cs. 9 \<notin> set c"
  then obtain c where "c \<in> set cs" "length (split c 9) < 2"
    by (auto simp: split_no_tab)
  with assms show "gene_mappings w = ([Sent \<lparr>http_method = GET,
          url = u ''https://reactome.org/download/current/ReactomePathways.gmt.zip'',
          headers = [], data = None\<rparr>], Inl IndexError)"
    by (rule gene_mappings_raises_IndexError)
qed

text \<open>The theorem on a file whose second line is \<open>trailer\<close>, without a tab.\<close>

theorem gene_mappings_needs_two_fields_witness:
  "9 \<notin> set (u ''trailer'' @ [10])
   \<and> gene_mappings broken_gene_sets = ([Sent \<lparr>http_method = GET,
          url = u ''https://reactome.org/download/current/ReactomePathways.gmt.zip'',
          headers = [], data = None\<rparr>], Inl IndexError)"
proof -
  let ?first = "[''Empty'' @ [CHR 0x09] @ ''R-HSA-1'' @ [CHR 0x0A], ''trailer'' @ [CHR 0x0A]]"
  let ?cs = "[u ''Empty'' @ [9] @ u ''R-HSA-1'' @ [10], u ''trailer'' @ [10]]"
  have t: "\<exists>c \<in> set ?cs. 9 \<notin> set c" by (simp add: u_def)
  have "http broken_gene_sets \<lparr>http_method = GET,
          url = u ''https://reactome.org/download/current/ReactomePathways.gmt.zip'',
          headers = [], data = None\<rparr> = Responds (answer 200 [])"
    and "status_code (answer 200 []) = 200"
    and "zip_readlines broken_gene_sets (content (answer 200 [])) = Inr (?first # [])"
    and "list_all2 (\<lambda>b c. decode_utf8 broken_gene_sets b = Inr c) ?first ?cs"
    by (simp_all add: run_gene_mappings broken_gene_sets_def)
  from gene_mappings_needs_two_fields [OF this] t
  have "gene_mappings broken_gene_sets = ([Sent \<lparr>http_method = GET,
          url = u ''https://reactome.org/download/current/ReactomePathways.gmt.zip'',
          headers = [], data = None\<rparr>], Inl IndexError)" by blast
  moreover have "9 \<notin> set (u ''trailer'' @ [10])" by (simp add: u_def)
  ultimately show ?thesis by simp
qed

text \<open>
  Claim C6, as the code has it: in every record that \<open>gene_mappings\<close> returns, \<open>name\<close>,
  \<open>stId\<close> and every element of \<open>genes\<close> have no whitespace at either end. Any of them
  may be empty.
\<close>

theorem gene_mappings_fields_trimmed:
  assumes "gene_mappings w = (evs, Inr (Some relations))" and "r \<in> set relations"
  shows "trimmed (name r) \<and> trimmed (stId r) \<and> (\<forall>g \<in> set (genes r). trimmed g)"
proof -
  from assms(1) obtain cs where cs: "\<forall>c \<in> set cs. 2 \<le> length (split c 9)"
    and rel: "relations = map record_of_line cs"
    unfolding gene_mappings_returns by blast
  from rel assms(2) obtain c where "c \<in> set cs" and r: "r = record_of_line c" by auto
  with cs have c: "2 \<le> length (split c 9)" by blast
  from c have "r = \<lparr>name = strip (split c 9 ! 0), stId = strip (split c 9 ! 1),
      genes = map strip (drop 2 (split c 9))\<rparr>"
    unfolding r by (rule record_of_line_eq)
  then show ?thesis by (auto simp: trimmed_strip)
qed

text \<open>The theorem on the first record of the file of two lines.\<close>

theorem gene_mappings_fields_trimmed_witness:
  "trimmed (u ''Apoptosis'') \<and> trimmed (u ''R-HSA-109581'')
   \<and> trimmed (u ''BAX'') \<and> trimmed (u ''TP53'')"
  using gene_mappings_fields_trimmed [OF gene_mappings_gene_sets,
      of "\<lparr>name = u ''Apoptosis'', stId = u ''R-HSA-109581'', genes = [u ''BAX'', u ''TP53'']\<rparr>"]
  by simp

text \<open>
  Claim C6 as stated fails: for the line \<open>TAB TAB TP53 NEWLINE\<close> the call returns a
  record whose \<open>name\<close> and \<open>stId\<close> are the empty string.
\<close>

theorem gene_mappings_empty_name_counterexample:
  "gene_mappings unnamed_gene_set =
     ([Sent \<lparr>http_method = GET,
          url = u ''https://reactome.org/download/current/ReactomePathways.gmt.zip'',
          headers = [], data = None\<rparr>], Inr (Some [\<lparr>name = [], stId = [], genes = [u ''TP53'']\<rparr>]))"
  by (simp add: run_gene_mappings unnamed_gene_set_def)

end
